theory Spec2Isabelle
  imports Complex_Main "HOL-Library.AList" "HOL-Library.Log_Nat"
begin

section \<open>Numbers\<close>

text \<open>
  A JavaScript \<^verbatim>\<open>number\<close> is a double. The engine's control flow distinguishes the
  special values (\<^verbatim>\<open>NaN\<close>, \<^verbatim>\<open>Infinity\<close>, \<^verbatim>\<open>-Infinity\<close>) from the finite ones, so they are
  constructors of their own. A finite double is the real number it denotes, and \<^verbatim>\<open>-0\<close> is
  \<^verbatim>\<open>0\<close> (the source never tells them apart: \<^verbatim>\<open>-0 < 0\<close> is false and \<^verbatim>\<open>-0 === 0\<close> is
  true).
\<close>

datatype jsnum = Fin real | NaN | PosInf | NegInf

text \<open>\<^verbatim>\<open>x < 0\<close>: every comparison with \<^verbatim>\<open>NaN\<close> is false.\<close>

fun js_negative :: "jsnum \<Rightarrow> bool" where
  "js_negative (Fin r) = (r < 0)"
| "js_negative NegInf = True"
| "js_negative NaN = False"
| "js_negative PosInf = False"

text \<open>\<^verbatim>\<open>Math.floor\<close> returns its argument when that is not finite.\<close>

fun js_floor :: "jsnum \<Rightarrow> jsnum" where
  "js_floor (Fin r) = Fin (of_int \<lfloor>r\<rfloor>)"
| "js_floor x = x"

text \<open>\<^verbatim>\<open>a === b\<close> on numbers: \<^verbatim>\<open>NaN\<close> is not equal to anything, itself included.\<close>

definition js_strict_eq :: "jsnum \<Rightarrow> jsnum \<Rightarrow> bool" where
  "js_strict_eq a b = (a \<noteq> NaN \<and> b \<noteq> NaN \<and> a = b)"


text \<open>
  The arithmetic of doubles (IEEE 754 binary64, the default rounding): \<^verbatim>\<open>+\<close>, \<^verbatim>\<open>-\<close>, \<^verbatim>\<open>*\<close> and
  \<^verbatim>\<open>/\<close> return the double nearest to the exact result, the one with the even significand
  when two are equally near. \<open>roundHalfEven\<close> rounds a real to the nearest integer in that
  way. \<open>binaryExponent a\<close> is the \<open>e\<close> with \<open>2 ^ e \<le> a < 2 ^ (e + 1)\<close>, for a positive \<open>a\<close>.
  A double has a significand of 53 bits, and its exponent is not below \<open>-1022\<close>: the
  doubles next to \<open>x\<close> are the multiples of \<open>2 ^ (e - 52)\<close>, with \<open>e\<close> the exponent of \<open>x\<close> or
  \<open>-1022\<close>, whichever is larger. A result beyond the largest double is \<^verbatim>\<open>Infinity\<close> in
  JavaScript; \<open>round64\<close> has no upper bound on the exponent, so pixel values of that
  magnitude (above \<open>1.79e308\<close>) are outside this model.
\<close>

definition roundHalfEven :: "real \<Rightarrow> int" where
  "roundHalfEven r =
     (let f = \<lfloor>r\<rfloor>; d = r - of_int f
      in if d < 1/2 then f else if d > 1/2 then f + 1 else if even f then f else f + 1)"

definition binaryExponent :: "real \<Rightarrow> int" where
  "binaryExponent a = (if 1 \<le> a then bitlen \<lfloor>a\<rfloor> - 1 else - bitlen (\<lceil>1 / a\<rceil> - 1))"

definition round64 :: "real \<Rightarrow> real" where
  "round64 x =
     (if x = 0 then 0
      else let e = max (binaryExponent \<bar>x\<bar>) (- 1022);
               q = 2 powi (e - 52)
           in sgn x * of_int (roundHalfEven (\<bar>x\<bar> / q)) * q)"

definition dadd :: "real \<Rightarrow> real \<Rightarrow> real" where
  "dadd x y = round64 (x + y)"

definition dsub :: "real \<Rightarrow> real \<Rightarrow> real" where
  "dsub x y = round64 (x - y)"

definition dmul :: "real \<Rightarrow> real \<Rightarrow> real" where
  "dmul x y = round64 (x * y)"

definition ddiv :: "real \<Rightarrow> real \<Rightarrow> real" where
  "ddiv x y = round64 (x / y)"

text \<open>
  \<^verbatim>\<open>roundToDevicePixelRatio\<close> of \<^verbatim>\<open>utils/ratio.ts\<close>: \<^verbatim>\<open>Math.ceil(cssPixels * dpr) / dpr\<close>.
  \<^verbatim>\<open>Math.ceil\<close> is exact: it returns an integer that is a double.
\<close>

definition roundToDevicePixelRatio :: "real \<Rightarrow> real \<Rightarrow> real" where
  "roundToDevicePixelRatio cssPixels dpr = ddiv (of_int \<lceil>dmul cssPixels dpr\<rceil>) dpr"

section \<open>Geometry\<close>

text \<open>\<^verbatim>\<open>class Rectangle\<close>: a top and a height.\<close>

record Rectangle =
  rect_top :: real
  rect_height :: real

definition getBottom :: "Rectangle \<Rightarrow> real" where
  "getBottom r = dadd (rect_top r) (rect_height r)"

definition doesIntersectWith :: "Rectangle \<Rightarrow> Rectangle \<Rightarrow> bool" where
  "doesIntersectWith r other =
     (getBottom r > rect_top other \<and> rect_top r < getBottom other)"

definition translateBy :: "Rectangle \<Rightarrow> real \<Rightarrow> Rectangle" where
  "translateBy r off = \<lparr>rect_top = dadd (rect_top r) off, rect_height = rect_height r\<rparr>"

text \<open>\<^verbatim>\<open>class Anchor\<close> of \<^verbatim>\<open>geo/Anchor.ts\<close>, which is also the engine's rendered item.\<close>

record Anchor =
  itemId :: string
  offset :: real
  visible :: bool
  canBeAnchor :: bool
  height :: real

definition getRectInViewport :: "Anchor \<Rightarrow> Rectangle" where
  "getRectInViewport a = \<lparr>rect_top = offset a, rect_height = height a\<rparr>"

text \<open>
  \<^verbatim>\<open>type ListItem\<close>. Of the opaque \<^verbatim>\<open>data\<close> the engine reads \<^verbatim>\<open>data?.type\<close> only, which
  \<^verbatim>\<open>_getHeightForItemId\<close> defaults to the empty string.
\<close>

record ListItem =
  item_id :: string
  item_type :: string
  item_canBeAnchor :: bool
  item_sortIndex :: int

text \<open>\<^verbatim>\<open>type Slice = { start: number; end: number }\<close>: a half-open index range.\<close>

record Slice =
  slice_start :: int
  slice_end :: int

section \<open>Slice adjustment\<close>

definition MAX_ITEMS_TO_RENDER_AT_ONCE :: int where
  "MAX_ITEMS_TO_RENDER_AT_ONCE = 50"

text \<open>\<^verbatim>\<open>_adjustSlice(prevSlice, nextSlice, usePreferredBuffer)\<close>, branch for branch.\<close>

definition adjustSlice :: "Slice \<Rightarrow> Slice \<Rightarrow> bool \<Rightarrow> Slice" where
  "adjustSlice prevSlice nextSlice usePreferredBuffer =
     (if usePreferredBuffer then nextSlice
      else if slice_start nextSlice \<ge> slice_start prevSlice
              \<and> slice_end nextSlice \<le> slice_end prevSlice
              \<and> slice_end prevSlice - slice_start prevSlice \<le> MAX_ITEMS_TO_RENDER_AT_ONCE
           then prevSlice
      else if slice_start nextSlice \<ge> slice_end prevSlice
              \<or> slice_end nextSlice \<le> slice_start prevSlice
           then nextSlice
      else let expansion = max (max (slice_start prevSlice - slice_start nextSlice)
                                    (slice_end nextSlice - slice_end prevSlice)) 0
           in \<lparr>slice_start = min (slice_start prevSlice + expansion) (slice_start nextSlice),
               slice_end = max (slice_end prevSlice - expansion) (slice_end nextSlice)\<rparr>)"

section \<open>Proximity zones\<close>

text \<open>
  \<^verbatim>\<open>ProximityState\<close> and \<^verbatim>\<open>ProximityTriggerCause\<close>. A zone's stored proximity and list
  length start out \<^verbatim>\<open>undefined\<close> (the state object is created empty), which is \<open>None\<close>.
\<close>

datatype ProximityState = INSIDE | OUTSIDE

datatype ProximityTriggerCause = MOVEMENT | LIST_UPDATE | INITIAL_POSITION

text \<open>
  \<^verbatim>\<open>calculateProximityTrigger\<close>. \<^verbatim>\<open>!prevProximity\<close> holds exactly for \<^verbatim>\<open>undefined\<close>: both
  proximity strings are non-empty. \<^verbatim>\<open>currentListLength !== prevListLength\<close> compares a
  number with a number or \<^verbatim>\<open>undefined\<close>.
\<close>

definition calculateProximityTrigger ::
  "ProximityState option \<Rightarrow> nat option \<Rightarrow> ProximityState \<Rightarrow> nat \<Rightarrow> ProximityTriggerCause option"
where
  "calculateProximityTrigger prevProximity prevListLength currentProximity currentListLength =
     (let wasOutside_nowInside = (prevProximity = None \<and> currentProximity = INSIDE);
          wasOutside_becameInside = (prevProximity = Some OUTSIDE \<and> currentProximity = INSIDE);
          stayedInside_listChanged = (prevProximity = Some INSIDE \<and> currentProximity = INSIDE
                                      \<and> Some currentListLength \<noteq> prevListLength)
      in if wasOutside_nowInside then Some INITIAL_POSITION
         else if wasOutside_becameInside then Some MOVEMENT
         else if stayedInside_listChanged then Some LIST_UPDATE
         else None)"

text \<open>
  Modelled from the spec: the \<^verbatim>\<open>Positioning\<close> class (\<^verbatim>\<open>geo/Positioning\<close>) is not among the
  sources. It is the read-only aggregate that \<^verbatim>\<open>_updatePositioning\<close> builds: the viewport
  rectangle, the list rectangle, the list length and the rectangle of every rendered item;
  \<^verbatim>\<open>getForList\<close>, \<^verbatim>\<open>getForViewport\<close> and \<^verbatim>\<open>getListLength\<close> read its fields.
\<close>

record Positioning =
  pos_viewportRect :: Rectangle
  pos_listRect :: Rectangle
  pos_listLength :: nat
  pos_renderedItems :: "(string \<times> Rectangle) list"

text \<open>
  A zone definition is a condition on (list rectangle, viewport rectangle) and a callback.
  Callbacks belong to the host; the model records which callback was invoked with which
  cause, in invocation order.
\<close>

record 'cb Zone =
  condition :: "Rectangle \<Rightarrow> Rectangle \<Rightarrow> bool"
  callback :: 'cb

record ZoneState =
  proximity :: "ProximityState option"
  listLength :: "nat option"

type_synonym 'cb ProximityZoneManager = "('cb Zone \<times> ZoneState) list"

text \<open>The constructor: every zone starts with the empty state object.\<close>

definition newProximityZoneManager :: "'cb Zone list \<Rightarrow> 'cb ProximityZoneManager" where
  "newProximityZoneManager zoneDefinitions =
     map (\<lambda>zone. (zone, \<lparr>proximity = None, listLength = None\<rparr>)) zoneDefinitions"

text \<open>
  The body of the \<^verbatim>\<open>forEach\<close> in \<^verbatim>\<open>handlePositioningUpdate\<close> for one zone: the new state and
  the callback invocation, if any. The state is written before the callback runs.
\<close>

definition handleZone ::
  "Positioning \<Rightarrow> 'cb Zone \<times> ZoneState \<Rightarrow> ('cb Zone \<times> ZoneState) \<times> ('cb \<times> ProximityTriggerCause) list"
where
  "handleZone positioningData entry =
     (let zone = fst entry; state = snd entry;
          prevListLength = listLength state; prevProximity = proximity state;
          currentProximity =
            (if condition zone (pos_listRect positioningData) (pos_viewportRect positioningData)
             then INSIDE else OUTSIDE);
          currentListLength = pos_listLength positioningData;
          triggerCause = calculateProximityTrigger prevProximity prevListLength
                           currentProximity currentListLength;
          state' = state\<lparr>proximity := Some currentProximity,
                         listLength := Some currentListLength\<rparr>
      in ((zone, state'),
          (case triggerCause of None \<Rightarrow> [] | Some c \<Rightarrow> [(callback zone, c)])))"

definition handlePositioningUpdate ::
  "'cb ProximityZoneManager \<Rightarrow> Positioning
     \<Rightarrow> 'cb ProximityZoneManager \<times> ('cb \<times> ProximityTriggerCause) list"
where
  "handlePositioningUpdate zones positioningData =
     (map (\<lambda>e. fst (handleZone positioningData e)) zones,
      concat (map (\<lambda>e. snd (handleZone positioningData e)) zones))"

text \<open>The zone conditions, as functions of a threshold or ratio.\<close>

definition isNearTop :: "real \<Rightarrow> Rectangle \<Rightarrow> Rectangle \<Rightarrow> bool" where
  "isNearTop threshold listRect viewportRect =
     (dsub (rect_top viewportRect) (rect_top listRect) \<le> threshold)"

definition isNearBottom :: "real \<Rightarrow> Rectangle \<Rightarrow> Rectangle \<Rightarrow> bool" where
  "isNearBottom threshold listRect viewportRect =
     (dsub (getBottom listRect) (getBottom viewportRect) \<le> threshold)"

definition isNearTopRatio :: "real \<Rightarrow> Rectangle \<Rightarrow> Rectangle \<Rightarrow> bool" where
  "isNearTopRatio ratio listRect viewportRect =
     (let threshold = dmul (rect_height viewportRect) ratio
      in dsub (rect_top viewportRect) (rect_top listRect) \<le> threshold)"

definition isNearBottomRatio :: "real \<Rightarrow> Rectangle \<Rightarrow> Rectangle \<Rightarrow> bool" where
  "isNearBottomRatio ratio listRect viewportRect =
     (let threshold = dmul (rect_height viewportRect) ratio
      in dsub (getBottom listRect) (getBottom viewportRect) \<le> threshold)"

section \<open>The engine's state\<close>

datatype UpdateReason = HEIGHT_CHANGE

text \<open>\<^verbatim>\<open>assumedItemHeight: ((itemType: string) => number) | number\<close>.\<close>

datatype AssumedItemHeight = FixedHeight real | HeightOfType "string \<Rightarrow> real"

text \<open>The callbacks of the options that the default zones invoke.\<close>

datatype ZoneCallback = OnAtStart | OnNearStart | OnNearEnd | OnAtEnd

text \<open>
  The host's callbacks are optional and opaque; the model logs each invocation the engine
  makes (\<^verbatim>\<open>onChange?.()\<close>, \<^verbatim>\<open>onPositionUpdate?.(positioning)\<close>, a zone's callback with its
  trigger cause) in the order it is made.
\<close>

datatype Event =
    OnChange
  | OnPositionUpdate Positioning
  | OnZone ZoneCallback ProximityTriggerCause

text \<open>
  The fields of \<^verbatim>\<open>class Virtualizer\<close>, named as in the source without the underscore.
  Both height maps and the node table are JavaScript \<^verbatim>\<open>Map\<close>s, which keep insertion order:
  association lists with \<open>map_of\<close> for \<^verbatim>\<open>get\<close>/\<^verbatim>\<open>has\<close> and \<open>AList.update\<close> for \<^verbatim>\<open>set\<close>
  (it replaces the value of a present key in place and appends an absent one). A DOM node
  is a natural number (its identity). \<open>viewport\<close> and \<open>rootElement\<close> say whether the field
  is defined; what they measure is read from the \<open>World\<close> when a cycle runs.
\<close>

record Virtualizer =
  assumedItemHeight :: AssumedItemHeight
  minimumOffscreenToViewportRatio :: real
  preferredOffscreenToViewportRatio :: real
  nearStartProximityRatio :: real
  nearEndProximityRatio :: real
  viewport :: bool
  rootElement :: bool
  list :: "ListItem list"
  renderedItems :: "Anchor list"
  listHeightWithHeadRoom :: real
  heights :: "(string \<times> jsnum) list"
  pendingHeightUpdates :: "(string \<times> jsnum) list"
  cells :: "(nat \<times> string) list"
  slice :: Slice
  isIdle :: bool
  isInitialAnchoring :: bool
  devicePixelRatio :: real
  lastUpdateReason :: "UpdateReason option"
  edgeProximity :: "ZoneCallback ProximityZoneManager option"
  events :: "Event list"

text \<open>
  What the engine reads from the page during one cycle: \<^verbatim>\<open>viewport.getRect()\<close>,
  \<^verbatim>\<open>rootElement.getBoundingClientRect().top\<close> and, for a registered node,
  \<^verbatim>\<open>node.getBoundingClientRect().height\<close> (\<open>None\<close> when it is not of type number).
\<close>

record World =
  viewportRect :: Rectangle
  rootTop :: real
  nodeHeight :: "nat \<Rightarrow> jsnum option"

text \<open>The field initialisers and \<^verbatim>\<open>_setupOptions\<close>; \<open>dpr\<close> is \<^verbatim>\<open>window.devicePixelRatio || 1\<close>.\<close>

definition newVirtualizer ::
  "AssumedItemHeight \<Rightarrow> real \<Rightarrow> real \<Rightarrow> ListItem list \<Rightarrow> real \<Rightarrow> Virtualizer"
where
  "newVirtualizer assumed minRatio prefRatio items dpr =
     \<lparr>assumedItemHeight = assumed,
      minimumOffscreenToViewportRatio = minRatio,
      preferredOffscreenToViewportRatio = prefRatio,
      nearStartProximityRatio = 0.25,
      nearEndProximityRatio = 1.75,
      viewport = False,
      rootElement = True,
      list = items,
      renderedItems = [],
      listHeightWithHeadRoom = 0,
      heights = [],
      pendingHeightUpdates = [],
      cells = [],
      slice = \<lparr>slice_start = 0, slice_end = 0\<rparr>,
      isIdle = True,
      isInitialAnchoring = True,
      devicePixelRatio = dpr,
      lastUpdateReason = None,
      edgeProximity = None,
      events = []\<rparr>"

text \<open>\<^verbatim>\<open>setList\<close>: the list is replaced; the cycle it schedules is a later \<open>update\<close>.\<close>

definition setList :: "ListItem list \<Rightarrow> Virtualizer \<Rightarrow> Virtualizer" where
  "setList newList s = s\<lparr>list := newList\<rparr>"

section \<open>Utilities\<close>

text \<open>\<^verbatim>\<open>first\<close> and \<^verbatim>\<open>last\<close> of \<^verbatim>\<open>utils/array\<close>: \<^verbatim>\<open>undefined\<close> on the empty array.\<close>

definition first :: "'a list \<Rightarrow> 'a option" where
  "first arr = (case arr of [] \<Rightarrow> None | x # _ \<Rightarrow> Some x)"

definition last_item :: "'a list \<Rightarrow> 'a option" where
  "last_item arr = (if arr = [] then None else Some (arr ! (length arr - 1)))"

text \<open>\<^verbatim>\<open>filterMap\<close>: map, then drop the \<^verbatim>\<open>undefined\<close> results.\<close>

fun filterMap :: "'a list \<Rightarrow> ('a \<Rightarrow> 'b option) \<Rightarrow> 'b list" where
  "filterMap [] fn = []"
| "filterMap (x # arr) fn =
     (case fn x of None \<Rightarrow> filterMap arr fn | Some mapped \<Rightarrow> mapped # filterMap arr fn)"

text \<open>\<^verbatim>\<open>Array.prototype.findIndex\<close>: the first position that satisfies the test, or \<open>-1\<close>.\<close>

fun findIndex :: "('a \<Rightarrow> bool) \<Rightarrow> 'a list \<Rightarrow> int" where
  "findIndex P [] = -1"
| "findIndex P (x # xs) =
     (if P x then 0 else (let i = findIndex P xs in if i < 0 then -1 else i + 1))"

text \<open>
  \<^verbatim>\<open>Array.prototype.slice(start, end)\<close> on integer arguments: a negative index counts
  from the end, and both are clamped to the array.
\<close>

definition js_slice :: "'a list \<Rightarrow> int \<Rightarrow> int \<Rightarrow> 'a list" where
  "js_slice arr start fin =
     (let len = int (length arr);
          k = (if start < 0 then max (len + start) 0 else min start len);
          final = (if fin < 0 then max (len + fin) 0 else min fin len)
      in take (nat (final - k)) (drop (nat k) arr))"

section \<open>Height resolution\<close>

text \<open>
  \<^verbatim>\<open>_getHeightForItemId(itemId, itemType = '')\<close>: the cached height when \<^verbatim>\<open>isNumber\<close> accepts
  it, else the assumed height; the result of either branch goes through
  \<^verbatim>\<open>roundToDevicePixelRatio\<close>.
\<close>

definition getHeightForItemId :: "Virtualizer \<Rightarrow> string \<Rightarrow> string \<Rightarrow> real" where
  "getHeightForItemId s itemId' itemType =
     (let cachedHeight = map_of (heights s) itemId';
          height' = (case cachedHeight of
                       Some (Fin h) \<Rightarrow> h
                     | _ \<Rightarrow> (case assumedItemHeight s of
                                HeightOfType f \<Rightarrow> f itemType
                              | FixedHeight h \<Rightarrow> h))
      in roundToDevicePixelRatio height' (devicePixelRatio s))"

definition getHeight :: "Virtualizer \<Rightarrow> ListItem \<Rightarrow> real" where
  "getHeight s item = getHeightForItemId s (item_id item) (item_type item)"

section \<open>Anchor resolution\<close>

text \<open>
  Modelled from the spec: \<^verbatim>\<open>memo\<close> (\<^verbatim>\<open>utils/memo\<close>) is not among the sources. It recomputes
  a derived value when one of its dependencies changed, so reading a memoized value is
  reading the value computed from the current fields.

  \<^verbatim>\<open>_itemMap\<close>: \<^verbatim>\<open>list.forEach(item => map.set(item.id, item))\<close>; a later item with the same
  id replaces an earlier one.
\<close>

definition itemMap :: "Virtualizer \<Rightarrow> (string \<times> ListItem) list" where
  "itemMap s = fold (\<lambda>item m. AList.update (item_id item) item m) (list s) []"

text \<open>
  \<^verbatim>\<open>_finalRenderedItems\<close>: every rendered state whose id the item map knows, paired with
  that item; the others are dropped.
\<close>

record FinalRenderedItem =
  fr_item :: ListItem
  fr_offset :: real
  fr_visible :: bool

definition getFinalRenderedItems :: "Virtualizer \<Rightarrow> FinalRenderedItem list" where
  "getFinalRenderedItems s =
     filterMap (renderedItems s)
       (\<lambda>state. case map_of (itemMap s) (itemId state) of
                   None \<Rightarrow> None
                 | Some item \<Rightarrow> Some \<lparr>fr_item = item, fr_offset = offset state,
                                      fr_visible = visible state\<rparr>)"

definition getAnchorItemCandidates :: "Virtualizer \<Rightarrow> FinalRenderedItem list" where
  "getAnchorItemCandidates s =
     filter (\<lambda>r. item_canBeAnchor (fr_item r) \<and> map_of (heights s) (item_id (fr_item r)) \<noteq> None)
       (getFinalRenderedItems s)"

text \<open>\<^verbatim>\<open>new Anchor(itemId, offset)\<close>: the other fields take the constructor's defaults.\<close>

definition newAnchor :: "string \<Rightarrow> real \<Rightarrow> Anchor" where
  "newAnchor i off = \<lparr>itemId = i, offset = off, visible = False, canBeAnchor = False, height = 0\<rparr>"

definition getAnchor :: "Virtualizer \<Rightarrow> Anchor option" where
  "getAnchor s =
     (case first (getAnchorItemCandidates s) of
        Some firstCandidate \<Rightarrow>
          Some (newAnchor (item_id (fr_item firstCandidate)) (fr_offset firstCandidate))
      | None \<Rightarrow>
          (case first (list s) of
             Some firstOverall \<Rightarrow> Some (newAnchor (item_id firstOverall) 0)
           | None \<Rightarrow> None))"

section \<open>Measuring registered nodes\<close>

text \<open>
  One iteration of the loop of \<^verbatim>\<open>_measureHeights\<close>: a measured height that is a number and
  not below zero is written to the height map when it is \<^verbatim>\<open>!==\<close> the current entry.
\<close>

definition measureCell :: "World \<Rightarrow> nat \<times> string \<Rightarrow> (string \<times> jsnum) list \<Rightarrow> (string \<times> jsnum) list" where
  "measureCell w cell hs =
     (case nodeHeight w (fst cell) of
        None \<Rightarrow> hs
      | Some measuredHeight \<Rightarrow>
          if js_negative measuredHeight then hs
          else (case map_of hs (snd cell) of
                  None \<Rightarrow> AList.update (snd cell) measuredHeight hs
                | Some currentHeight \<Rightarrow>
                    if \<not> js_strict_eq measuredHeight currentHeight
                    then AList.update (snd cell) measuredHeight hs else hs))"

definition measureHeights :: "World \<Rightarrow> Virtualizer \<Rightarrow> Virtualizer" where
  "measureHeights w s = s\<lparr>heights := fold (measureCell w) (cells s) (heights s)\<rparr>"

section \<open>Projection and window selection\<close>

definition getBufferedViewport :: "Rectangle \<Rightarrow> real \<Rightarrow> Rectangle" where
  "getBufferedViewport vr ratio =
     (let bufferHeight = dmul ratio (rect_height vr)
      in \<lparr>rect_top = dsub (rect_top vr) bufferHeight,
          rect_height = dadd (rect_height vr) (dmul 2 bufferHeight)\<rparr>)"

definition getDistanceFromTop :: "Virtualizer \<Rightarrow> string \<Rightarrow> real" where
  "getDistanceFromTop s targetItemId =
     (let targetIndex = findIndex (\<lambda>item. item_id item = targetItemId) (list s)
      in if targetIndex \<le> 0 then 0
         else foldl (\<lambda>sum item. dadd sum (getHeight s item)) 0 (take (nat targetIndex) (list s)))"

text \<open>The \<^verbatim>\<open>forEach\<close> of \<^verbatim>\<open>_getItemsWithPositions\<close>, with \<^verbatim>\<open>currentOffset\<close> as an argument.\<close>

fun positionItems :: "Virtualizer \<Rightarrow> real \<Rightarrow> ListItem list \<Rightarrow> Anchor list" where
  "positionItems s currentOffset [] = []"
| "positionItems s currentOffset (item # rest) =
     (let h = getHeight s item
      in \<lparr>itemId = item_id item, offset = currentOffset,
          visible = (map_of (heights s) (item_id item) \<noteq> None),
          canBeAnchor = item_canBeAnchor item, height = h\<rparr>
         # positionItems s (dadd currentOffset h) rest)"

definition getItemsWithPositions :: "Virtualizer \<Rightarrow> Anchor \<Rightarrow> Anchor list" where
  "getItemsWithPositions s anchor =
     (if list s = [] then []
      else let anchorDistanceTop = getDistanceFromTop s (itemId anchor);
               currentOffset = dsub (offset anchor) anchorDistanceTop
           in positionItems s currentOffset (list s))"

text \<open>
  Every \<^verbatim>\<open>Anchor\<close> of a projection is a fresh object, and \<^verbatim>\<open>indexOf\<close> compares by identity:
  \<^verbatim>\<open>allItems.indexOf(c)\<close> is the position the candidate \<^verbatim>\<open>c\<close> was filtered from. The model
  keeps that position with each candidate.
\<close>

definition candidateItems :: "Anchor list \<Rightarrow> Rectangle \<Rightarrow> (nat \<times> Anchor) list" where
  "candidateItems allItemsWithPositions targetBufferRect =
     filter (\<lambda>c. doesIntersectWith (getRectInViewport (snd c)) targetBufferRect)
       (zip [0..<length allItemsWithPositions] allItemsWithPositions)"

definition getSliceForCandidates :: "(nat \<times> Anchor) list \<Rightarrow> Slice" where
  "getSliceForCandidates candidates =
     (let firstCandidate = first candidates; lastCandidate = last_item candidates
      in \<lparr>slice_start = (case firstCandidate of Some c \<Rightarrow> int (fst c) | None \<Rightarrow> 0),
          slice_end = (case lastCandidate of Some c \<Rightarrow> int (fst c) + 1 | None \<Rightarrow> 0)\<rparr>)"

record RenderCandidates =
  allItemsWithPositions :: "Anchor list"
  newRenderedItems :: "Anchor list"
  rc_slice :: Slice
  arePreferredItemsRendered :: bool

definition getRenderCandidates :: "Virtualizer \<Rightarrow> Anchor \<Rightarrow> Rectangle \<Rightarrow> RenderCandidates" where
  "getRenderCandidates s anchor relativeViewportRect =
     (let minBufferRect = getBufferedViewport relativeViewportRect
                            (minimumOffscreenToViewportRatio s);
          preferredBufferRect = getBufferedViewport relativeViewportRect
                                  (preferredOffscreenToViewportRatio s);
          usePreferredBuffer = (isIdle s \<and> \<not> isInitialAnchoring s);
          targetBufferRect = (if usePreferredBuffer then preferredBufferRect else minBufferRect);
          allItems = getItemsWithPositions s anchor;
          candidates = candidateItems allItems targetBufferRect;
          candidateSlice = getSliceForCandidates candidates;
          newSlice = adjustSlice (slice s) candidateSlice usePreferredBuffer;
          rendered = js_slice allItems (slice_start newSlice) (slice_end newSlice)
      in \<lparr>allItemsWithPositions = allItems, newRenderedItems = rendered,
          rc_slice = newSlice, arePreferredItemsRendered = usePreferredBuffer\<rparr>)"

definition getHeightBetweenItems :: "Anchor option \<Rightarrow> Anchor option \<Rightarrow> real" where
  "getHeightBetweenItems firstItemState lastItemState =
     (case (firstItemState, lastItemState) of
        (Some f, Some l) \<Rightarrow> dsub (getBottom (getRectInViewport l)) (rect_top (getRectInViewport f))
      | _ \<Rightarrow> 0)"

definition getIsHeightsReady :: "Virtualizer \<Rightarrow> Anchor list \<Rightarrow> bool" where
  "getIsHeightsReady s rendered =
     (if rendered = [] then True
      else list_all (\<lambda>r. map_of (heights s) (itemId r) \<noteq> None) rendered)"

definition shouldTriggerOnChange :: "Virtualizer \<Rightarrow> bool \<Rightarrow> bool" where
  "shouldTriggerOnChange s sliceChanged =
     (sliceChanged \<or> lastUpdateReason s = Some HEIGHT_CHANGE)"

section \<open>The update cycle\<close>

text \<open>
  \<^verbatim>\<open>_updatePositioning\<close>: nothing happens unless the heights are ready; otherwise the
  snapshot is built, handed to \<^verbatim>\<open>onPositionUpdate\<close> and then to the proximity manager, if
  there is one.
\<close>

definition buildPositioning ::
  "Virtualizer \<Rightarrow> Anchor list \<Rightarrow> Rectangle \<Rightarrow> Anchor option \<Rightarrow> real \<Rightarrow> Positioning"
where
  "buildPositioning s rendered relativeViewportRect firstItem newListHeight =
     \<lparr>pos_viewportRect = relativeViewportRect,
      pos_listRect = \<lparr>rect_top = (case firstItem of
                                     Some f \<Rightarrow> rect_top (getRectInViewport f) | None \<Rightarrow> 0),
                      rect_height = newListHeight\<rparr>,
      pos_listLength = length (list s),
      pos_renderedItems =
        map (\<lambda>item. (itemId item,
                      \<lparr>rect_top = offset item,
                       rect_height = getHeightForItemId s (itemId item) []\<rparr>)) rendered\<rparr>"

definition feedProximity :: "Positioning \<Rightarrow> Virtualizer \<Rightarrow> Virtualizer" where
  "feedProximity positioning s =
     (case edgeProximity s of
        None \<Rightarrow> s
      | Some zones \<Rightarrow>
          (let r = handlePositioningUpdate zones positioning
           in s\<lparr>edgeProximity := Some (fst r),
                events := events s @ map (\<lambda>c. OnZone (fst c) (snd c)) (snd r)\<rparr>))"

definition updatePositioning ::
  "Anchor list \<Rightarrow> Rectangle \<Rightarrow> Anchor option \<Rightarrow> real \<Rightarrow> Virtualizer \<Rightarrow> Virtualizer"
where
  "updatePositioning rendered relativeViewportRect firstItem newListHeight s =
     (if \<not> getIsHeightsReady s rendered then s
      else let positioning = buildPositioning s rendered relativeViewportRect firstItem newListHeight
           in feedProximity positioning (s\<lparr>events := events s @ [OnPositionUpdate positioning]\<rparr>))"

text \<open>
  \<^verbatim>\<open>_updateRenderedItems\<close>. \<^verbatim>\<open>deepCompare\<close> on two slices compares their \<^verbatim>\<open>start\<close> and \<^verbatim>\<open>end\<close>
  with \<^verbatim>\<open>===\<close>, which is equality of the records.
\<close>

definition updateRenderedItems :: "Anchor \<Rightarrow> Rectangle \<Rightarrow> Virtualizer \<Rightarrow> Virtualizer" where
  "updateRenderedItems anchor relativeViewportRect s =
     (let rc = getRenderCandidates s anchor relativeViewportRect;
          firstItemOverall = first (allItemsWithPositions rc);
          lastItemOverall = last_item (allItemsWithPositions rc);
          listHeight = getHeightBetweenItems firstItemOverall lastItemOverall;
          areHeightsReadyForRender = getIsHeightsReady s (newRenderedItems rc);
          sliceChanged = (slice s \<noteq> rc_slice rc);
          s1 = s\<lparr>renderedItems := newRenderedItems rc, listHeightWithHeadRoom := listHeight\<rparr>;
          s2 = (if areHeightsReadyForRender then s1\<lparr>isInitialAnchoring := False\<rparr> else s1);
          s3 = (if shouldTriggerOnChange s2 sliceChanged
                then s2\<lparr>slice := rc_slice rc, events := events s2 @ [OnChange]\<rparr> else s2);
          s4 = s3\<lparr>lastUpdateReason := None\<rparr>
      in updatePositioning (newRenderedItems rc) relativeViewportRect firstItemOverall listHeight s4)"

definition measureRelativeViewportRect :: "World \<Rightarrow> Virtualizer \<Rightarrow> Rectangle option" where
  "measureRelativeViewportRect w s =
     (if rootElement s \<and> viewport s then Some (translateBy (viewportRect w) (- rootTop w))
      else None)"

text \<open>\<^verbatim>\<open>_update\<close>: one cycle. The anchor is resolved before the nodes are measured.\<close>

definition update :: "World \<Rightarrow> Virtualizer \<Rightarrow> Virtualizer" where
  "update w s =
     (if \<not> viewport s then s
      else case measureRelativeViewportRect w s of
             None \<Rightarrow> s
           | Some relativeViewportRect \<Rightarrow>
               (let anchor = getAnchor s;
                    s1 = measureHeights w s
                in case anchor of
                     Some a \<Rightarrow> updateRenderedItems a relativeViewportRect s1
                   | None \<Rightarrow> s1))"

section \<open>Reported measurements\<close>

text \<open>
  \<^verbatim>\<open>_updateItemHeight\<close>: the height is staged; when every rendered item has a committed or a
  staged height, or more than 50 heights are staged, all of them are committed, the buffer
  is cleared, the reason is set and a cycle runs at once.
\<close>

definition flushPending :: "Virtualizer \<Rightarrow> Virtualizer" where
  "flushPending s =
     s\<lparr>heights := fold (\<lambda>e hs. AList.update (fst e) (snd e) hs) (pendingHeightUpdates s) (heights s),
       pendingHeightUpdates := [],
       lastUpdateReason := Some HEIGHT_CHANGE\<rparr>"

definition updateItemHeight :: "World \<Rightarrow> string \<Rightarrow> jsnum \<Rightarrow> Virtualizer \<Rightarrow> Virtualizer" where
  "updateItemHeight w itemId' height' s =
     (let s1 = s\<lparr>pendingHeightUpdates := AList.update itemId' height' (pendingHeightUpdates s)\<rparr>;
          allRenderedHaveHeights =
            list_all (\<lambda>r. map_of (heights s1) (itemId r) \<noteq> None
                          \<or> map_of (pendingHeightUpdates s1) (itemId r) \<noteq> None)
              (renderedItems s1)
      in if allRenderedHaveHeights \<or> length (pendingHeightUpdates s1) > 50
         then update w (flushPending s1)
         else s1)"

text \<open>\<^verbatim>\<open>_handleHeightChanged\<close>: \<^verbatim>\<open>this._heights.get(itemId) !== height\<close>.\<close>

definition handleHeightChanged :: "World \<Rightarrow> string \<Rightarrow> jsnum \<Rightarrow> Virtualizer \<Rightarrow> Virtualizer" where
  "handleHeightChanged w itemId' height' s =
     (if (case map_of (heights s) itemId' of
            None \<Rightarrow> True
          | Some current \<Rightarrow> \<not> js_strict_eq current height')
      then updateItemHeight w itemId' height' s
      else s)"

text \<open>
  A \<^verbatim>\<open>ResizeObserverEntry\<close>, of which \<^verbatim>\<open>contentRect?.height\<close> is read: \<open>None\<close> when that is
  not of type number.
\<close>

datatype ResizeObserverEntry = Entry (contentRectHeight: "jsnum option")

text \<open>
  \<^verbatim>\<open>_measureElement(node, entry)\<close>, the handler of a reported measurement. Without an entry
  it asks the observer to observe the node, which changes no field of the engine.
\<close>

definition measureElement ::
  "World \<Rightarrow> nat \<Rightarrow> ResizeObserverEntry option \<Rightarrow> Virtualizer \<Rightarrow> Virtualizer"
where
  "measureElement w node entry s =
     (case map_of (cells s) node of
        None \<Rightarrow> s
      | Some itemId' \<Rightarrow>
          (case entry of
             None \<Rightarrow> s
           | Some e \<Rightarrow>
               (case contentRectHeight e of
                  None \<Rightarrow> s
                | Some newHeightRaw \<Rightarrow>
                    if js_negative newHeightRaw then s
                    else let newHeight = js_floor newHeightRaw;
                             heightValue = map_of (heights s) itemId';
                             oldHeight = map_option js_floor heightValue;
                             heightDidChange = (case oldHeight of
                                                  None \<Rightarrow> True
                                                | Some old \<Rightarrow> \<not> js_strict_eq newHeight old)
                         in if heightDidChange then handleHeightChanged w itemId' newHeight s
                            else s)))"

text \<open>The public \<^verbatim>\<open>measureElement(node, itemId)\<close>: registration of a node.\<close>

definition registerElement :: "World \<Rightarrow> nat \<Rightarrow> string \<Rightarrow> Virtualizer \<Rightarrow> Virtualizer" where
  "registerElement w node itemId' s =
     measureElement w node None (s\<lparr>cells := AList.update node itemId' (cells s)\<rparr>)"

text \<open>
  \<^verbatim>\<open>mount\<close>: the viewport and the proximity manager are created and, as
  \<^verbatim>\<open>_getInitialRenderedItems\<close> returns the empty array, one cycle runs.

  Modelled from the spec: the \<^verbatim>\<open>condition\<close> object of \<^verbatim>\<open>geo/Proximity\<close> is not among the
  sources; its four conditions are the near-top and near-bottom tests by fixed distance
  and by ratio defined above.
\<close>

definition defaultZones :: "Virtualizer \<Rightarrow> ZoneCallback Zone list" where
  "defaultZones s =
     [\<lparr>condition = isNearTop 5, callback = OnAtStart\<rparr>,
      \<lparr>condition = isNearTopRatio (nearStartProximityRatio s), callback = OnNearStart\<rparr>,
      \<lparr>condition = isNearBottomRatio (nearEndProximityRatio s), callback = OnNearEnd\<rparr>,
      \<lparr>condition = isNearBottom 5, callback = OnAtEnd\<rparr>]"

definition mount :: "World \<Rightarrow> Virtualizer \<Rightarrow> Virtualizer" where
  "mount w s =
     update w (s\<lparr>viewport := True,
                 edgeProximity := Some (newProximityZoneManager (defaultZones s))\<rparr>)"

section \<open>Notions used to state the properties\<close>

text \<open>The persisted slice lies within the engine's current list.\<close>

definition sliceWithin :: "Slice \<Rightarrow> nat \<Rightarrow> bool" where
  "sliceWithin sl n =
     (0 \<le> slice_start sl \<and> slice_start sl \<le> slice_end sl \<and> slice_end sl \<le> int n)"

definition sliceWithinList :: "Virtualizer \<Rightarrow> bool" where
  "sliceWithinList s = sliceWithin (slice s) (length (list s))"

text \<open>Two slices share an index; one slice lies inside the other.\<close>

definition slicesOverlap :: "Slice \<Rightarrow> Slice \<Rightarrow> bool" where
  "slicesOverlap p c = (slice_start c < slice_end p \<and> slice_start p < slice_end c)"

definition sliceContains :: "Slice \<Rightarrow> Slice \<Rightarrow> bool" where
  "sliceContains p c = (slice_start p \<le> slice_start c \<and> slice_end c \<le> slice_end p)"

text \<open>
  The gradual expansion as the specification words it: the previous slice grown by
  \<open>expansion\<close> on each boundary, start decreased and end increased, clamped to the
  candidate's span. It is stated here to be compared with \<open>adjustSlice\<close>.
\<close>

definition sliceExpansion :: "Slice \<Rightarrow> Slice \<Rightarrow> int" where
  "sliceExpansion p c = max (max (slice_start p - slice_start c) (slice_end c - slice_end p)) 0"

definition grownAndClamped :: "Slice \<Rightarrow> Slice \<Rightarrow> Slice" where
  "grownAndClamped p c =
     \<lparr>slice_start = max (slice_start p - sliceExpansion p c) (slice_start c),
      slice_end = min (slice_end p + sliceExpansion p c) (slice_end c)\<rparr>"

text \<open>
  The anchor fallback chain as the specification words it: the first rendered item with
  \<open>canBeAnchor\<close> and a committed height, else the first item of the list at offset 0, else
  none. It is stated here to be compared with \<open>getAnchor\<close>.
\<close>

definition anchorByRenderedFlags :: "Virtualizer \<Rightarrow> Anchor option" where
  "anchorByRenderedFlags s =
     (case filter (\<lambda>r. canBeAnchor r \<and> map_of (heights s) (itemId r) \<noteq> None) (renderedItems s) of
        r # _ \<Rightarrow> Some (newAnchor (itemId r) (offset r))
      | [] \<Rightarrow> (case list s of
                 item # _ \<Rightarrow> Some (newAnchor (item_id item) 0)
               | [] \<Rightarrow> None))"

text \<open>
  The entry of the current list that carries a given id (the last one, should the id
  occur twice), and the rendered items that qualify as anchors with respect to it.
\<close>

definition currentListEntry :: "Virtualizer \<Rightarrow> string \<Rightarrow> ListItem option" where
  "currentListEntry s i = find (\<lambda>item. item_id item = i) (rev (list s))"

definition qualifiesAsAnchor :: "Virtualizer \<Rightarrow> Anchor \<Rightarrow> bool" where
  "qualifiesAsAnchor s r =
     (case currentListEntry s (itemId r) of
        None \<Rightarrow> False
      | Some item \<Rightarrow> item_canBeAnchor item \<and> map_of (heights s) (itemId r) \<noteq> None)"

definition anchorByCurrentList :: "Virtualizer \<Rightarrow> Anchor option" where
  "anchorByCurrentList s =
     (case filter (qualifiesAsAnchor s) (renderedItems s) of
        r # _ \<Rightarrow> Some (newAnchor (itemId r) (offset r))
      | [] \<Rightarrow> (case list s of
                 item # _ \<Rightarrow> Some (newAnchor (item_id item) 0)
               | [] \<Rightarrow> None))"

text \<open>
  Every rendered item is an item of the current list with the same \<open>canBeAnchor\<close> flag.
\<close>

definition renderedInSync :: "Virtualizer \<Rightarrow> bool" where
  "renderedInSync s =
     list_all (\<lambda>r. case currentListEntry s (itemId r) of
                      None \<Rightarrow> False
                    | Some item \<Rightarrow> item_canBeAnchor item = canBeAnchor r)
       (renderedItems s)"



text \<open>The buffer a cycle selects, and whether a cycle gets as far as the projection.\<close>

definition usePreferredBuffer :: "Virtualizer \<Rightarrow> bool" where
  "usePreferredBuffer s = (isIdle s \<and> \<not> isInitialAnchoring s)"

definition targetBufferRect :: "Virtualizer \<Rightarrow> Rectangle \<Rightarrow> Rectangle" where
  "targetBufferRect s relativeViewportRect =
     getBufferedViewport relativeViewportRect
       (if usePreferredBuffer s then preferredOffscreenToViewportRatio s
        else minimumOffscreenToViewportRatio s)"

definition cycleRuns :: "Virtualizer \<Rightarrow> bool" where
  "cycleRuns s = (viewport s \<and> rootElement s \<and> list s \<noteq> [])"

text \<open>The snapshot a cycle builds from an anchor and the relative viewport rectangle.\<close>

definition cyclePositioning :: "Virtualizer \<Rightarrow> Anchor \<Rightarrow> Rectangle \<Rightarrow> Positioning" where
  "cyclePositioning s a v =
     buildPositioning s (newRenderedItems (getRenderCandidates s a v)) v
       (first (getItemsWithPositions s a))
       (getHeightBetweenItems (first (getItemsWithPositions s a))
          (last_item (getItemsWithPositions s a)))"

text \<open>The zone callbacks a snapshot triggers, as logged.\<close>

definition zoneEvents :: "ZoneCallback ProximityZoneManager option \<Rightarrow> Positioning \<Rightarrow> Event list" where
  "zoneEvents zones p =
     (case zones of
        None \<Rightarrow> []
      | Some z \<Rightarrow> map (\<lambda>c. OnZone (fst c) (snd c)) (snd (handlePositioningUpdate z p)))"

text \<open>
  The state \<^verbatim>\<open>_updateRenderedItems\<close> has reached when it calls \<^verbatim>\<open>_updatePositioning\<close>.
\<close>

definition beforePositioning :: "Anchor \<Rightarrow> Rectangle \<Rightarrow> Virtualizer \<Rightarrow> Virtualizer" where
  "beforePositioning a v s =
     (let rc = getRenderCandidates s a v;
          s1 = s\<lparr>renderedItems := newRenderedItems rc,
                 listHeightWithHeadRoom :=
                   getHeightBetweenItems (first (allItemsWithPositions rc))
                     (last_item (allItemsWithPositions rc))\<rparr>;
          s2 = (if getIsHeightsReady s (newRenderedItems rc)
                then s1\<lparr>isInitialAnchoring := False\<rparr> else s1);
          s3 = (if shouldTriggerOnChange s2 (slice s \<noteq> rc_slice rc)
                then s2\<lparr>slice := rc_slice rc, events := events s2 @ [OnChange]\<rparr> else s2)
      in s3\<lparr>lastUpdateReason := None\<rparr>)"

text \<open>The projection of the whole list that a cycle computes (empty when it aborts).\<close>

definition cycleProjection :: "World \<Rightarrow> Virtualizer \<Rightarrow> Anchor list" where
  "cycleProjection w s =
     (if viewport s \<and> rootElement s
      then (case getAnchor s of
              Some a \<Rightarrow> getItemsWithPositions (measureHeights w s) a
            | None \<Rightarrow> [])
      else [])"

text \<open>The notifications a step added to the log.\<close>

definition newEvents :: "Virtualizer \<Rightarrow> Virtualizer \<Rightarrow> Event list" where
  "newEvents s s' = drop (length (events s)) (events s')"

fun isPositionUpdate :: "Event \<Rightarrow> bool" where
  "isPositionUpdate (OnPositionUpdate p) = True"
| "isPositionUpdate e = False"


text \<open>A batch of reported heights, staged one after the other.\<close>

definition stageAll :: "World \<Rightarrow> (string \<times> jsnum) list \<Rightarrow> Virtualizer \<Rightarrow> Virtualizer" where
  "stageAll w entries s = fold (\<lambda>e. updateItemHeight w (fst e) (snd e)) entries s"

text \<open>The proximity a zone's condition gives on a snapshot.\<close>

definition currentProximityOf :: "Positioning \<Rightarrow> 'cb Zone \<Rightarrow> ProximityState" where
  "currentProximityOf pos zone =
     (if condition zone (pos_listRect pos) (pos_viewportRect pos) then INSIDE else OUTSIDE)"

section \<open>Example inputs\<close>

text \<open>Fifty-one distinct item ids, each reported with the height 30.\<close>

definition exampleIds51 :: "string list" where
  "exampleIds51 = map (\<lambda>c. [c]) ''abcdefghijklmnopqrstuvwxyzABCDEFGHIJKLMNOPQRSTUVWXY''"

definition exampleReports51 :: "(string \<times> jsnum) list" where
  "exampleReports51 = map (\<lambda>i. (i, Fin 30)) exampleIds51"


definition exampleItem :: "string \<Rightarrow> ListItem" where
  "exampleItem i = \<lparr>item_id = i, item_type = [], item_canBeAnchor = True, item_sortIndex = 0\<rparr>"

text \<open>A viewport 100 pixels high at the top of the root; every measured node is 100 high.\<close>

definition exampleWorld :: World where
  "exampleWorld =
     \<lparr>viewportRect = \<lparr>rect_top = 0, rect_height = 100\<rparr>, rootTop = 0,
      nodeHeight = (\<lambda>n. Some (Fin 100))\<rparr>"

text \<open>Assumed height 100, buffer ratios 0.5 and 2.5, device pixel ratio 1.\<close>

definition exampleEngine :: "string list \<Rightarrow> Virtualizer" where
  "exampleEngine ids = newVirtualizer (FixedHeight 100) (1/2) (5/2) (map exampleItem ids) 1"



text \<open>
  A page whose measured nodes are 50 high, half the assumed height, with the viewport
  100 pixels high at a given scroll position.
\<close>

definition scrolledWorld :: "real \<Rightarrow> World" where
  "scrolledWorld y =
     \<lparr>viewportRect = \<lparr>rect_top = y, rect_height = 100\<rparr>, rootTop = 0,
      nodeHeight = (\<lambda>n. Some (Fin 50))\<rparr>"

text \<open>
  An engine over four items, mounted at the top of that page with a node registered for
  the second item only; then a node is registered for the first item.
\<close>

definition exampleHalfMeasured :: Virtualizer where
  "exampleHalfMeasured =
     registerElement (scrolledWorld 0) 0 ''a''
       (mount (scrolledWorld 0)
          (registerElement (scrolledWorld 0) 1 ''b'' (exampleEngine [''a'', ''b'', ''c'', ''d''])))"


section \<open>Auxiliary facts: arithmetic of doubles on integers\<close>

text \<open>
  An integer below \<open>2 ^ 53\<close> in magnitude is a double, so an operation whose exact result
  is such an integer returns it.
\<close>

lemma roundHalfEven_of_int: "roundHalfEven (of_int m) = m"
  by (simp add: roundHalfEven_def)

lemma round64_of_int:
  assumes "\<bar>n\<bar> < 2 ^ 53"
  shows "round64 (of_int n) = of_int n"
proof (cases "n = 0")
  case True
  then show ?thesis by (simp add: round64_def)
next
  case False
  define a where "a = \<bar>n\<bar>"
  have a: "0 < a" "a < 2 ^ 53" using False assms by (simp_all add: a_def)
  define b where "b = bitlen a"
  have b1: "1 \<le> b" using a(1) by (simp add: b_def bitlen_alt_def)
  have b53: "b \<le> 53" using a(2) by (simp add: b_def bitlen_le_iff_power)
  define k where "k = nat (53 - b)"
  have ex: "binaryExponent \<bar>real_of_int n\<bar> = b - 1"
  proof -
    have "\<bar>real_of_int n\<bar> = real_of_int a" by (simp add: a_def)
    moreover have "1 \<le> real_of_int a" using a(1) by simp
    ultimately show ?thesis by (simp add: binaryExponent_def b_def)
  qed
  have mx: "max (b - 1) (- 1022) = b - 1" using b1 by simp
  have q: "(2::real) powi (b - 1 - 52) = 1 / 2 ^ k"
    using b53 by (simp add: power_int_def k_def inverse_eq_divide power_one_over algebra_simps)
  have quo: "\<bar>real_of_int n\<bar> / (1 / 2 ^ k) = real_of_int (a * 2 ^ k)" by (simp add: a_def)
  have "round64 (of_int n) = sgn (real_of_int n) * real_of_int (a * 2 ^ k) * (1 / 2 ^ k)"
    using False
    by (simp only: round64_def Let_def ex mx q quo roundHalfEven_of_int of_int_eq_0_iff if_False)
  also have "\<dots> = sgn (real_of_int n) * real_of_int a" by simp
  also have "\<dots> = real_of_int n" by (simp add: a_def sgn_real_def)
  finally show ?thesis .
qed

lemma round64_0: "round64 0 = 0"
  by (simp add: round64_def)

lemma round64_1: "round64 1 = 1"
  using round64_of_int [of 1] by simp

lemma round64_numeral: "(numeral k :: int) < 2 ^ 53 \<Longrightarrow> round64 (numeral k) = numeral k"
  using round64_of_int [of "numeral k"] by simp

lemma round64_neg_numeral:
  "(numeral k :: int) < 2 ^ 53 \<Longrightarrow> round64 (- numeral k) = - numeral k"
  using round64_of_int [of "- numeral k"] by simp



lemmas double_eval =
  dadd_def dsub_def dmul_def ddiv_def round64_0 round64_1 round64_numeral round64_neg_numeral

section \<open>Auxiliary facts: what a cycle leaves alone and what it computes\<close>


lemma getIsHeightsReady_cong:
  "heights s = heights t \<Longrightarrow> getIsHeightsReady s r = getIsHeightsReady t r"
  by (simp add: getIsHeightsReady_def)

lemma feedProximity_frame:
  "list (feedProximity p s) = list s"
  "heights (feedProximity p s) = heights s"
  "slice (feedProximity p s) = slice s"
  "renderedItems (feedProximity p s) = renderedItems s"
  "isIdle (feedProximity p s) = isIdle s"
  "isInitialAnchoring (feedProximity p s) = isInitialAnchoring s"
  "viewport (feedProximity p s) = viewport s"
  "rootElement (feedProximity p s) = rootElement s"
  "cells (feedProximity p s) = cells s"
  "assumedItemHeight (feedProximity p s) = assumedItemHeight s"
  "devicePixelRatio (feedProximity p s) = devicePixelRatio s"
  "minimumOffscreenToViewportRatio (feedProximity p s) = minimumOffscreenToViewportRatio s"
  "preferredOffscreenToViewportRatio (feedProximity p s) = preferredOffscreenToViewportRatio s"
  "pendingHeightUpdates (feedProximity p s) = pendingHeightUpdates s"
  "lastUpdateReason (feedProximity p s) = lastUpdateReason s"
  by (simp_all add: feedProximity_def Let_def split: option.split)

lemma updatePositioning_frame:
  "list (updatePositioning r v f h s) = list s"
  "heights (updatePositioning r v f h s) = heights s"
  "slice (updatePositioning r v f h s) = slice s"
  "renderedItems (updatePositioning r v f h s) = renderedItems s"
  "isIdle (updatePositioning r v f h s) = isIdle s"
  "isInitialAnchoring (updatePositioning r v f h s) = isInitialAnchoring s"
  "viewport (updatePositioning r v f h s) = viewport s"
  "rootElement (updatePositioning r v f h s) = rootElement s"
  "cells (updatePositioning r v f h s) = cells s"
  "assumedItemHeight (updatePositioning r v f h s) = assumedItemHeight s"
  "devicePixelRatio (updatePositioning r v f h s) = devicePixelRatio s"
  "minimumOffscreenToViewportRatio (updatePositioning r v f h s) = minimumOffscreenToViewportRatio s"
  "preferredOffscreenToViewportRatio (updatePositioning r v f h s) = preferredOffscreenToViewportRatio s"
  "pendingHeightUpdates (updatePositioning r v f h s) = pendingHeightUpdates s"
  "lastUpdateReason (updatePositioning r v f h s) = lastUpdateReason s"
  by (simp_all add: updatePositioning_def Let_def feedProximity_frame)

lemma updateRenderedItems_frame:
  "list (updateRenderedItems a v s) = list s"
  "heights (updateRenderedItems a v s) = heights s"
  "isIdle (updateRenderedItems a v s) = isIdle s"
  "viewport (updateRenderedItems a v s) = viewport s"
  "rootElement (updateRenderedItems a v s) = rootElement s"
  "cells (updateRenderedItems a v s) = cells s"
  "assumedItemHeight (updateRenderedItems a v s) = assumedItemHeight s"
  "devicePixelRatio (updateRenderedItems a v s) = devicePixelRatio s"
  "minimumOffscreenToViewportRatio (updateRenderedItems a v s) = minimumOffscreenToViewportRatio s"
  "preferredOffscreenToViewportRatio (updateRenderedItems a v s) = preferredOffscreenToViewportRatio s"
  "pendingHeightUpdates (updateRenderedItems a v s) = pendingHeightUpdates s"
  "lastUpdateReason (updateRenderedItems a v s) = None"
  by (simp_all add: updateRenderedItems_def Let_def updatePositioning_frame)

lemma updateRenderedItems_result:
  "renderedItems (updateRenderedItems a v s) = newRenderedItems (getRenderCandidates s a v)"
  "slice (updateRenderedItems a v s) = rc_slice (getRenderCandidates s a v)"
  "isInitialAnchoring (updateRenderedItems a v s)
     = (isInitialAnchoring s \<and> \<not> getIsHeightsReady s (newRenderedItems (getRenderCandidates s a v)))"
  by (auto simp add: updateRenderedItems_def Let_def updatePositioning_frame shouldTriggerOnChange_def)

lemma measureHeights_frame:
  "list (measureHeights w s) = list s"
  "slice (measureHeights w s) = slice s"
  "renderedItems (measureHeights w s) = renderedItems s"
  "isIdle (measureHeights w s) = isIdle s"
  "isInitialAnchoring (measureHeights w s) = isInitialAnchoring s"
  "viewport (measureHeights w s) = viewport s"
  "rootElement (measureHeights w s) = rootElement s"
  "cells (measureHeights w s) = cells s"
  "assumedItemHeight (measureHeights w s) = assumedItemHeight s"
  "devicePixelRatio (measureHeights w s) = devicePixelRatio s"
  "minimumOffscreenToViewportRatio (measureHeights w s) = minimumOffscreenToViewportRatio s"
  "preferredOffscreenToViewportRatio (measureHeights w s) = preferredOffscreenToViewportRatio s"
  "pendingHeightUpdates (measureHeights w s) = pendingHeightUpdates s"
  "lastUpdateReason (measureHeights w s) = lastUpdateReason s"
  "events (measureHeights w s) = events s"
  "edgeProximity (measureHeights w s) = edgeProximity s"
  "listHeightWithHeadRoom (measureHeights w s) = listHeightWithHeadRoom s"
  by (simp_all add: measureHeights_def)

lemma update_frame:
  "list (update w s) = list s"
  "isIdle (update w s) = isIdle s"
  "viewport (update w s) = viewport s"
  "rootElement (update w s) = rootElement s"
  "cells (update w s) = cells s"
  "assumedItemHeight (update w s) = assumedItemHeight s"
  "devicePixelRatio (update w s) = devicePixelRatio s"
  "minimumOffscreenToViewportRatio (update w s) = minimumOffscreenToViewportRatio s"
  "preferredOffscreenToViewportRatio (update w s) = preferredOffscreenToViewportRatio s"
  "pendingHeightUpdates (update w s) = pendingHeightUpdates s"
  by (simp_all add: update_def Let_def updateRenderedItems_frame measureHeights_frame split: option.split)

lemma length_positionItems: "length (positionItems s off xs) = length xs"
  by (induction xs arbitrary: off) (simp_all add: Let_def)

lemma length_getItemsWithPositions: "length (getItemsWithPositions s a) = length (list s)"
  by (simp add: getItemsWithPositions_def length_positionItems Let_def)

lemma candidateItems_sorted: "sorted (map fst (candidateItems allItems r))"
proof -
  have "sorted (map fst (zip [0..<length allItems] allItems))" by simp
  then show ?thesis unfolding candidateItems_def by (rule sorted_filter)
qed

lemma candidateItems_bound: "c \<in> set (candidateItems allItems r) \<Longrightarrow> fst c < length allItems"
  by (cases c) (auto simp add: candidateItems_def dest: set_zip_leftD)

lemma getSliceForCandidates_within:
  "sliceWithin (getSliceForCandidates (candidateItems allItems r)) (length allItems)"
proof (cases "candidateItems allItems r = []")
  case True
  then show ?thesis
    by (simp add: getSliceForCandidates_def first_def last_item_def sliceWithin_def)
next
  case False
  let ?cs = "candidateItems allItems r"
  have f: "first ?cs = Some (hd ?cs)" using False by (cases ?cs) (simp_all add: first_def)
  have l: "last_item ?cs = Some (last ?cs)" using False by (simp add: last_item_def last_conv_nth)
  have "map fst ?cs ! 0 \<le> map fst ?cs ! (length (map fst ?cs) - 1)"
    using candidateItems_sorted [of allItems r] False by (intro sorted_nth_mono) simp_all
  then have le: "fst (hd ?cs) \<le> fst (last ?cs)"
    using False by (simp add: hd_conv_nth last_conv_nth)
  have "last ?cs \<in> set ?cs" using False by simp
  then have b: "fst (last ?cs) < length allItems" by (rule candidateItems_bound)
  show ?thesis using le b by (simp add: getSliceForCandidates_def f l sliceWithin_def)
qed


lemma adjustSlice_within:
  assumes "sliceWithin p n" "sliceWithin c n"
  shows "sliceWithin (adjustSlice p c b) n"
  using assms by (auto simp: sliceWithin_def adjustSlice_def Let_def)

lemma rc_slice_within:
  assumes "sliceWithinList s"
  shows "sliceWithin (rc_slice (getRenderCandidates s a v)) (length (list s))"
proof -
  have "sliceWithin (getSliceForCandidates (candidateItems (getItemsWithPositions s a) r)) (length (list s))" for r
    using getSliceForCandidates_within [of "getItemsWithPositions s a" r]
    by (simp add: length_getItemsWithPositions)
  then show ?thesis using assms
    by (simp add: getRenderCandidates_def Let_def sliceWithinList_def adjustSlice_within)
qed

lemma getRenderCandidates_fields:
  "allItemsWithPositions (getRenderCandidates s a v) = getItemsWithPositions s a"
  "rc_slice (getRenderCandidates s a v)
     = adjustSlice (slice s)
         (getSliceForCandidates (candidateItems (getItemsWithPositions s a) (targetBufferRect s v)))
         (usePreferredBuffer s)"
  "newRenderedItems (getRenderCandidates s a v)
     = js_slice (getItemsWithPositions s a)
         (slice_start (rc_slice (getRenderCandidates s a v)))
         (slice_end (rc_slice (getRenderCandidates s a v)))"
  by (simp_all add: getRenderCandidates_def Let_def targetBufferRect_def usePreferredBuffer_def)

lemma update_cases:
  "update w s =
     (if viewport s \<and> rootElement s
      then (case getAnchor s of
              Some a \<Rightarrow> updateRenderedItems a (translateBy (viewportRect w) (- rootTop w)) (measureHeights w s)
            | None \<Rightarrow> measureHeights w s)
      else s)"
  by (simp add: update_def measureRelativeViewportRect_def Let_def)

lemma update_slice:
  "slice (update w s) =
     (if viewport s \<and> rootElement s
      then (case getAnchor s of
              Some a \<Rightarrow> rc_slice (getRenderCandidates (measureHeights w s) a
                                    (translateBy (viewportRect w) (- rootTop w)))
            | None \<Rightarrow> slice s)
      else slice s)"
  by (simp add: update_cases updateRenderedItems_result measureHeights_frame split: option.split)

lemma update_renderedItems:
  "renderedItems (update w s) =
     (if viewport s \<and> rootElement s
      then (case getAnchor s of
              Some a \<Rightarrow> newRenderedItems (getRenderCandidates (measureHeights w s) a
                                    (translateBy (viewportRect w) (- rootTop w)))
            | None \<Rightarrow> renderedItems s)
      else renderedItems s)"
  by (simp add: update_cases updateRenderedItems_result measureHeights_frame split: option.split)

lemma update_heights:
  "heights (update w s) =
     (if viewport s \<and> rootElement s then fold (measureCell w) (cells s) (heights s) else heights s)"
  by (simp add: update_cases updateRenderedItems_frame measureHeights_def split: option.split)

lemma update_isInitialAnchoring:
  "isInitialAnchoring (update w s) =
     (if viewport s \<and> rootElement s
      then (case getAnchor s of
              Some a \<Rightarrow> isInitialAnchoring s \<and> \<not> getIsHeightsReady (measureHeights w s) (renderedItems (update w s))
            | None \<Rightarrow> isInitialAnchoring s)
      else isInitialAnchoring s)"
  by (simp add: update_cases updateRenderedItems_result measureHeights_frame split: option.split)

text \<open>Anchor resolution through the item map.\<close>


lemma find_snoc:
  "find P (xs @ [x]) = (case find P xs of Some y \<Rightarrow> Some y | None \<Rightarrow> if P x then Some x else None)"
  by (induction xs) simp_all

lemma map_of_fold_items:
  "map_of (fold (\<lambda>item m. AList.update (item_id item) item m) xs m0) i
     = (case find (\<lambda>item. item_id item = i) (rev xs) of
          Some item \<Rightarrow> Some item
        | None \<Rightarrow> map_of m0 i)"
proof (induction xs arbitrary: m0)
  case Nil
  then show ?case by simp
next
  case (Cons x xs)
  show ?case
    by (simp add: Cons.IH find_snoc AList.update_conv' split: option.split)
qed

lemma map_of_itemMap: "map_of (itemMap s) i = currentListEntry s i"
  by (simp add: itemMap_def currentListEntry_def map_of_fold_items split: option.split)

lemma currentListEntry_id: "currentListEntry s i = Some item \<Longrightarrow> item_id item = i"
  by (auto simp add: currentListEntry_def find_Some_iff)

lemma first_filter_filterMap:
  "first (filter P (filterMap rs g))
     = (case filter (\<lambda>r. case g r of None \<Rightarrow> False | Some y \<Rightarrow> P y) rs of
          [] \<Rightarrow> None
        | r # _ \<Rightarrow> g r)"
  by (induction rs) (auto simp add: first_def split: option.split list.split)

lemma getAnchor_by_current_list: "getAnchor s = anchorByCurrentList s"
proof -
  let ?g = "\<lambda>state. case map_of (itemMap s) (itemId state) of
                   None \<Rightarrow> None
                 | Some item \<Rightarrow> Some \<lparr>fr_item = item, fr_offset = offset state,
                                      fr_visible = visible state\<rparr>"
  let ?P = "\<lambda>r. item_canBeAnchor (fr_item r) \<and> map_of (heights s) (item_id (fr_item r)) \<noteq> None"
  have q: "(case ?g r of None \<Rightarrow> False | Some y \<Rightarrow> ?P y) = qualifiesAsAnchor s r" for r
    by (auto simp add: qualifiesAsAnchor_def map_of_itemMap dest: currentListEntry_id split: option.split)
  have c: "first (getAnchorItemCandidates s)
             = (case filter (qualifiesAsAnchor s) (renderedItems s) of [] \<Rightarrow> None | r # _ \<Rightarrow> ?g r)"
    unfolding getAnchorItemCandidates_def getFinalRenderedItems_def first_filter_filterMap q ..
  have fl: "first (list s) = (case list s of [] \<Rightarrow> None | x # _ \<Rightarrow> Some x)"
    by (simp add: first_def)
  show ?thesis
  proof (cases "filter (qualifiesAsAnchor s) (renderedItems s)")
    case Nil
    then show ?thesis
      by (simp add: getAnchor_def c anchorByCurrentList_def fl split: list.split)
  next
    case (Cons r rest)
    then have "r \<in> set (filter (qualifiesAsAnchor s) (renderedItems s))" by simp
    then have "qualifiesAsAnchor s r" by simp
    then obtain item where i: "currentListEntry s (itemId r) = Some item"
      by (auto simp add: qualifiesAsAnchor_def split: option.splits)
    then have "item_id item = itemId r" by (rule currentListEntry_id)
    then show ?thesis using Cons i
      by (simp add: getAnchor_def c anchorByCurrentList_def map_of_itemMap)
  qed
qed

lemma getAnchor_empty_list: "list s = [] \<Longrightarrow> getAnchor s = None"
  by (simp add: getAnchor_by_current_list anchorByCurrentList_def qualifiesAsAnchor_def currentListEntry_def)

lemma getAnchor_in_sync:
  assumes "renderedInSync s"
  shows "getAnchor s = anchorByRenderedFlags s"
proof -
  have "filter (qualifiesAsAnchor s) (renderedItems s)
        = filter (\<lambda>r. canBeAnchor r \<and> map_of (heights s) (itemId r) \<noteq> None) (renderedItems s)"
    using assms
    by (intro filter_cong refl)
       (auto simp add: renderedInSync_def list_all_iff qualifiesAsAnchor_def split: option.splits)
  then show ?thesis by (simp add: getAnchor_by_current_list anchorByCurrentList_def anchorByRenderedFlags_def)
qed

lemma update_aborted_on_empty_list:
  assumes "list s = []"
  shows "renderedItems (update w s) = renderedItems s" "slice (update w s) = slice s"
    "listHeightWithHeadRoom (update w s) = listHeightWithHeadRoom s"
    "events (update w s) = events s" "edgeProximity (update w s) = edgeProximity s"
  using getAnchor_empty_list [OF assms] by (simp_all add: update_cases measureHeights_frame)

lemma registerElement_eq:
  "registerElement w n i s = s\<lparr>cells := AList.update n i (cells s)\<rparr>"
  by (simp add: registerElement_def measureElement_def AList.update_conv')

text \<open>The notifications of a cycle.\<close>


lemma getHeightForItemId_cong:
  assumes "heights t = heights s" "assumedItemHeight t = assumedItemHeight s"
    "devicePixelRatio t = devicePixelRatio s"
  shows "getHeightForItemId t i ty = getHeightForItemId s i ty"
  unfolding getHeightForItemId_def assms ..

lemma buildPositioning_cong:
  assumes "list t = list s" "heights t = heights s" "assumedItemHeight t = assumedItemHeight s"
    "devicePixelRatio t = devicePixelRatio s"
  shows "buildPositioning t r v f h = buildPositioning s r v f h"
  unfolding buildPositioning_def assms(1) getHeightForItemId_cong [OF assms(2-4)] ..

lemma feedProximity_events:
  "events (feedProximity p s) = events s @ zoneEvents (edgeProximity s) p"
  "edgeProximity (feedProximity p s)
     = map_option (\<lambda>z. fst (handlePositioningUpdate z p)) (edgeProximity s)"
  by (simp_all add: feedProximity_def zoneEvents_def Let_def split: option.split)

lemma updatePositioning_events:
  "events (updatePositioning r v f h s)
     = events s @ (if getIsHeightsReady s r
                   then OnPositionUpdate (buildPositioning s r v f h)
                        # zoneEvents (edgeProximity s) (buildPositioning s r v f h)
                   else [])"
  "edgeProximity (updatePositioning r v f h s)
     = (if getIsHeightsReady s r
        then map_option (\<lambda>z. fst (handlePositioningUpdate z (buildPositioning s r v f h)))
               (edgeProximity s)
        else edgeProximity s)"
  by (simp_all add: updatePositioning_def Let_def feedProximity_events
      buildPositioning_cong [of "s\<lparr>events := e\<rparr>" s for e])

lemma updateRenderedItems_split:
  "updateRenderedItems a v s
     = updatePositioning (newRenderedItems (getRenderCandidates s a v)) v
         (first (getItemsWithPositions s a))
         (getHeightBetweenItems (first (getItemsWithPositions s a))
            (last_item (getItemsWithPositions s a)))
         (beforePositioning a v s)"
  by (simp add: updateRenderedItems_def beforePositioning_def Let_def getRenderCandidates_fields(1))

lemma beforePositioning_fields:
  "list (beforePositioning a v s) = list s"
  "heights (beforePositioning a v s) = heights s"
  "assumedItemHeight (beforePositioning a v s) = assumedItemHeight s"
  "devicePixelRatio (beforePositioning a v s) = devicePixelRatio s"
  "edgeProximity (beforePositioning a v s) = edgeProximity s"
  "events (beforePositioning a v s)
     = events s @ (if slice s \<noteq> rc_slice (getRenderCandidates s a v)
                      \<or> lastUpdateReason s = Some HEIGHT_CHANGE
                   then [OnChange] else [])"
  by (simp_all add: beforePositioning_def Let_def shouldTriggerOnChange_def)

lemma updateRenderedItems_events:
  "events (updateRenderedItems a v s)
     = events s
       @ (if slice s \<noteq> rc_slice (getRenderCandidates s a v) \<or> lastUpdateReason s = Some HEIGHT_CHANGE
          then [OnChange] else [])
       @ (if getIsHeightsReady s (newRenderedItems (getRenderCandidates s a v))
          then OnPositionUpdate (cyclePositioning s a v)
               # zoneEvents (edgeProximity s) (cyclePositioning s a v)
          else [])"
  unfolding updateRenderedItems_split updatePositioning_events cyclePositioning_def
  by (simp add: beforePositioning_fields
      getIsHeightsReady_cong [of "beforePositioning a v s" s]
      buildPositioning_cong [of "beforePositioning a v s" s])


lemma update_events:
  "events (update w s) =
     (if viewport s \<and> rootElement s
      then (case getAnchor s of
              Some a \<Rightarrow> events (updateRenderedItems a (translateBy (viewportRect w) (- rootTop w))
                                  (measureHeights w s))
            | None \<Rightarrow> events s)
      else events s)"
  "edgeProximity (update w s) =
     (if viewport s \<and> rootElement s
      then (case getAnchor s of
              Some a \<Rightarrow> edgeProximity (updateRenderedItems a (translateBy (viewportRect w) (- rootTop w))
                                  (measureHeights w s))
            | None \<Rightarrow> edgeProximity s)
      else edgeProximity s)"
  by (simp_all add: update_cases measureHeights_frame split: option.split)

lemma getAnchor_nonempty_list: "list s \<noteq> [] \<Longrightarrow> getAnchor s \<noteq> None"
  by (simp add: getAnchor_by_current_list anchorByCurrentList_def split: list.split)

text \<open>Staging and flushing reported heights.\<close>


lemma update_fresh_appends:
  "k \<notin> fst ` set al \<Longrightarrow> AList.update k v al = al @ [(k, v)]"
  by (induction al) auto

lemma updateItemHeight_stages:
  assumes "i \<notin> fst ` set (pendingHeightUpdates s)"
    and "length (pendingHeightUpdates s) < 50"
    and "r \<in> set (renderedItems s)" "map_of (heights s) (itemId r) = None"
      "itemId r \<notin> fst ` set (pendingHeightUpdates s)" "itemId r \<noteq> i"
  shows "updateItemHeight w i h s = s\<lparr>pendingHeightUpdates := pendingHeightUpdates s @ [(i, h)]\<rparr>"
proof -
  let ?s1 = "s\<lparr>pendingHeightUpdates := pendingHeightUpdates s @ [(i, h)]\<rparr>"
  have upd: "AList.update i h (pendingHeightUpdates s) = pendingHeightUpdates s @ [(i, h)]"
    using assms(1) by (rule update_fresh_appends)
  have rec: "heights ?s1 = heights s" "renderedItems ?s1 = renderedItems s"
    "pendingHeightUpdates ?s1 = pendingHeightUpdates s @ [(i, h)]"
    by simp_all
  have p: "map_of (pendingHeightUpdates s @ [(i, h)]) (itemId r) = None"
    using assms(5,6) by (simp add: map_of_eq_None_iff)
  have na: "\<not> list_all (\<lambda>r. map_of (heights s) (itemId r) \<noteq> None
                 \<or> map_of (pendingHeightUpdates s @ [(i, h)]) (itemId r) \<noteq> None) (renderedItems s)"
    unfolding list_all_iff using assms(3,4) p by blast
  have len: "\<not> 50 < length (pendingHeightUpdates s @ [(i, h)])"
    using assms(2) by simp
  have c: "\<not> (list_all (\<lambda>r. map_of (heights s) (itemId r) \<noteq> None
                 \<or> map_of (pendingHeightUpdates s @ [(i, h)]) (itemId r) \<noteq> None) (renderedItems s)
              \<or> 50 < length (pendingHeightUpdates s @ [(i, h)]))"
    using na len by blast
  show ?thesis
    unfolding updateItemHeight_def Let_def upd rec by (simp only: c if_False)
qed

lemma updateItemHeight_flushes_over_threshold:
  assumes "i \<notin> fst ` set (pendingHeightUpdates s)"
    and "length (pendingHeightUpdates s) = 50"
  shows "updateItemHeight w i h s
           = update w (flushPending (s\<lparr>pendingHeightUpdates := pendingHeightUpdates s @ [(i, h)]\<rparr>))"
  using assms by (simp add: updateItemHeight_def Let_def update_fresh_appends)

lemma stageAll_stages:
  assumes "distinct (map fst (pendingHeightUpdates s) @ map fst es)"
    and "length (pendingHeightUpdates s) + length es \<le> 50"
    and "r \<in> set (renderedItems s)" "map_of (heights s) (itemId r) = None"
      "itemId r \<notin> fst ` set (pendingHeightUpdates s)" "itemId r \<notin> fst ` set es"
  shows "stageAll w es s = s\<lparr>pendingHeightUpdates := pendingHeightUpdates s @ es\<rparr>"
  using assms
proof (induction es arbitrary: s)
  case Nil
  then show ?case by (simp add: stageAll_def)
next
  case (Cons e es)
  let ?s' = "s\<lparr>pendingHeightUpdates := pendingHeightUpdates s @ [(fst e, snd e)]\<rparr>"
  have step: "updateItemHeight w (fst e) (snd e) s = ?s'"
    using Cons.prems by (intro updateItemHeight_stages [of _ _ r]) auto
  have "stageAll w es ?s' = ?s'\<lparr>pendingHeightUpdates := pendingHeightUpdates ?s' @ es\<rparr>"
    using Cons.prems by (intro Cons.IH) auto
  then show ?case by (simp add: stageAll_def step)
qed

lemma map_of_fold_update:
  "map_of (fold (\<lambda>e hs. AList.update (fst e) (snd e) hs) es hs) k
     = (case map_of (rev es) k of Some v \<Rightarrow> Some v | None \<Rightarrow> map_of hs k)"
proof (induction es arbitrary: hs)
  case Nil
  then show ?case by simp
next
  case (Cons e es)
  show ?case
    by (cases e) (simp add: Cons.IH AList.update_conv' map_add_def split: option.split)
qed

lemma flushPending_commits:
  assumes "distinct (map fst (pendingHeightUpdates s))" "e \<in> set (pendingHeightUpdates s)"
  shows "map_of (heights (flushPending s)) (fst e) = Some (snd e)"
proof -
  have "distinct (map fst (rev (pendingHeightUpdates s)))"
    using assms(1) by (simp add: rev_map [symmetric])
  moreover have "(fst e, snd e) \<in> set (rev (pendingHeightUpdates s))" using assms(2) by simp
  ultimately have "map_of (rev (pendingHeightUpdates s)) (fst e) = Some (snd e)"
    by (rule map_of_is_SomeI)
  then show ?thesis by (simp add: flushPending_def map_of_fold_update)
qed

lemma flushPending_fields:
  "pendingHeightUpdates (flushPending s) = []"
  "lastUpdateReason (flushPending s) = Some HEIGHT_CHANGE"
  "list (flushPending s) = list s" "viewport (flushPending s) = viewport s"
  "rootElement (flushPending s) = rootElement s" "events (flushPending s) = events s"
  "slice (flushPending s) = slice s" "renderedItems (flushPending s) = renderedItems s"
  "cells (flushPending s) = cells s"
  by (simp_all add: flushPending_def)

lemma update_tagged_fires_onChange:
  assumes "cycleRuns s" "lastUpdateReason s = Some HEIGHT_CHANGE"
  shows "\<exists>rest. newEvents s (update w s) = OnChange # rest"
proof -
  from assms(1) have run: "viewport s \<and> rootElement s" and ne: "list s \<noteq> []"
    by (simp_all add: cycleRuns_def)
  from ne obtain a where a: "getAnchor s = Some a"
    using getAnchor_nonempty_list by blast
  show ?thesis
    using run a assms(2)
    by (simp add: newEvents_def update_events updateRenderedItems_events measureHeights_frame)
qed

lemma exampleWorld_fields:
  "viewportRect exampleWorld = \<lparr>rect_top = 0, rect_height = 100\<rparr>"
  "rootTop exampleWorld = 0"
  "nodeHeight exampleWorld n = Some (Fin 100)"
  by (simp_all add: exampleWorld_def)

text \<open>Reported heights that the handler drops: below zero, or not of type number.\<close>


lemma measureElement_discards_negative:
  "js_negative raw \<Longrightarrow> measureElement w node (Some (Entry (Some raw))) s = s"
  "measureElement w node (Some (Entry None)) s = s"
  by (simp_all add: measureElement_def split: option.split)

text \<open>Definitions to unfold when a cycle is evaluated on a concrete engine.\<close>

lemmas eval_defs =
  translateBy_def
  getAnchor_def getAnchorItemCandidates_def getFinalRenderedItems_def itemMap_def first_def
  measureHeights_def measureCell_def js_strict_eq_def
  getBufferedViewport_def getItemsWithPositions_def targetBufferRect_def usePreferredBuffer_def
  getDistanceFromTop_def getHeight_def getHeightForItemId_def roundToDevicePixelRatio_def
  candidateItems_def doesIntersectWith_def getRectInViewport_def getBottom_def
  getSliceForCandidates_def last_item_def adjustSlice_def MAX_ITEMS_TO_RENDER_AT_ONCE_def
  js_slice_def getIsHeightsReady_def newAnchor_def
  setList_def mount_def
  exampleEngine_def exampleWorld_def exampleItem_def newVirtualizer_def Let_def upt_rec
  double_eval

lemmas update_fields =
  update_slice update_renderedItems update_heights update_isInitialAnchoring
  update_frame getRenderCandidates_fields

section \<open>The persisted slice and the list\<close>

text \<open>
  Claim C1, as amended. If the persisted slice satisfies
  \<open>0 \<le> start \<le> end \<le> list.length\<close> for the engine's current list before a cycle, it does so
  after the cycle. A new engine satisfies it, and \<open>setList\<close> keeps it when the new list is
  not shorter than the old one; so it holds after every cycle as long as no list was
  replaced by a shorter one.
\<close>

theorem update_keeps_slice_within_list:
  "(sliceWithinList s \<longrightarrow> sliceWithinList (update w s))
   \<and> sliceWithinList (newVirtualizer assumed minRatio prefRatio items dpr)
   \<and> (sliceWithinList s \<and> length (list s) \<le> length newList \<longrightarrow> sliceWithinList (setList newList s))"
proof (intro conjI impI)
  assume a: "sliceWithinList s"
  have m: "sliceWithinList (measureHeights w s)"
    using a by (simp add: sliceWithinList_def measureHeights_frame)
  show "sliceWithinList (update w s)"
  proof (cases "viewport s \<and> rootElement s")
    case False
    then show ?thesis using a by (auto simp add: update_def measureRelativeViewportRect_def)
  next
    case True
    show ?thesis
    proof (cases "getAnchor s")
      case None
      then show ?thesis using True m by (simp add: update_def measureRelativeViewportRect_def)
    next
      case (Some anchor)
      have "sliceWithinList (updateRenderedItems anchor v (measureHeights w s))" for v
        using rc_slice_within [OF m, of anchor v]
        by (simp add: sliceWithinList_def updateRenderedItems_result updateRenderedItems_frame)
      then show ?thesis using True Some by (simp add: update_def measureRelativeViewportRect_def)
    qed
  qed
next
  show "sliceWithinList (newVirtualizer assumed minRatio prefRatio items dpr)"
    by (simp add: sliceWithinList_def sliceWithin_def newVirtualizer_def)
next
  assume "sliceWithinList s \<and> length (list s) \<le> length newList"
  then show "sliceWithinList (setList newList s)"
    by (simp add: sliceWithinList_def sliceWithin_def setList_def)
qed

theorem update_keeps_slice_within_list_witness:
  "sliceWithinList ((exampleEngine [''a'', ''b'', ''c''])\<lparr>viewport := True\<rparr>)
   \<and> slice (update exampleWorld ((exampleEngine [''a'', ''b'', ''c''])\<lparr>viewport := True\<rparr>))
       = \<lparr>slice_start = 0, slice_end = 2\<rparr>
   \<and> sliceWithinList (update exampleWorld ((exampleEngine [''a'', ''b'', ''c''])\<lparr>viewport := True\<rparr>))"
proof -
  let ?s = "(exampleEngine [''a'', ''b'', ''c''])\<lparr>viewport := True\<rparr>"
  have h: "sliceWithinList ?s"
    by (simp add: sliceWithinList_def sliceWithin_def exampleEngine_def newVirtualizer_def)
  have r: "sliceWithinList (update exampleWorld ?s)"
    using update_keeps_slice_within_list [of ?s exampleWorld] h by blast
  have e: "slice (update exampleWorld ?s) = \<lparr>slice_start = 0, slice_end = 2\<rparr>"
    by (simp add: update_fields eval_defs)
  show ?thesis using h r e by blast
qed

text \<open>
  The claim as stated fails after \<open>setList\<close> with a shorter list. An engine over three
  items is mounted, which persists the slice \<open>[0,2)\<close>; the list is replaced by a list of one
  item; the next cycle keeps the previous slice, because it contains the candidate slice
  \<open>[0,1)\<close>: the persisted slice ends at 2, past the list's length 1.
\<close>

theorem slice_exceeds_shortened_list:
  "slice (mount exampleWorld (exampleEngine [''a'', ''b'', ''c''])) = \<lparr>slice_start = 0, slice_end = 2\<rparr>
   \<and> length (list (update exampleWorld (setList [exampleItem ''a'']
                (mount exampleWorld (exampleEngine [''a'', ''b'', ''c''])))))
       = 1
   \<and> slice (update exampleWorld (setList [exampleItem ''a'']
                (mount exampleWorld (exampleEngine [''a'', ''b'', ''c'']))))
       = \<lparr>slice_start = 0, slice_end = 2\<rparr>
   \<and> \<not> sliceWithinList (update exampleWorld (setList [exampleItem ''a'']
                (mount exampleWorld (exampleEngine [''a'', ''b'', ''c'']))))"
proof -
  let ?s = "update exampleWorld (setList [exampleItem ''a'']
              (mount exampleWorld (exampleEngine [''a'', ''b'', ''c''])))"
  have m: "slice (mount exampleWorld (exampleEngine [''a'', ''b'', ''c''])) = \<lparr>slice_start = 0, slice_end = 2\<rparr>"
    by (simp add: update_fields eval_defs)
  have l: "length (list ?s) = 1" by (simp add: update_frame setList_def)
  have e: "slice ?s = \<lparr>slice_start = 0, slice_end = 2\<rparr>"
    by (simp add: update_fields eval_defs)
  have "\<not> sliceWithinList ?s"
    unfolding sliceWithinList_def l e by (simp add: sliceWithin_def)
  with m l e show ?thesis by blast
qed

section \<open>Slice adjustment: the anti-thrash rules\<close>

text \<open>
  Claim C5. With the minimum buffer in use, a previous slice of width at most 50 that
  contains the candidate slice is returned unchanged; previous \<open>[10,20)\<close> with candidate
  \<open>[12,18)\<close> stays \<open>[10,20)\<close>.
\<close>

theorem adjustSlice_keeps_containing_previous:
  assumes "\<not> usePreferred"
    and "sliceContains prevSlice candidate"
    and "slice_end prevSlice - slice_start prevSlice \<le> 50"
  shows "adjustSlice prevSlice candidate usePreferred = prevSlice"
  using assms by (simp add: adjustSlice_def sliceContains_def MAX_ITEMS_TO_RENDER_AT_ONCE_def)

theorem adjustSlice_keeps_containing_previous_witness:
  "adjustSlice \<lparr>slice_start = 10, slice_end = 20\<rparr> \<lparr>slice_start = 12, slice_end = 18\<rparr> False
     = \<lparr>slice_start = 10, slice_end = 20\<rparr>"
  using adjustSlice_keeps_containing_previous
    [of False "\<lparr>slice_start = 10, slice_end = 20\<rparr>" "\<lparr>slice_start = 12, slice_end = 18\<rparr>"]
  by (simp add: sliceContains_def)

text \<open>
  Claim C4, as amended. With the minimum buffer in use, for a previous slice and a
  candidate slice that overlap while the candidate is not contained in the previous one,
  the adjusted slice starts at \<open>min (prevStart + expansion) candStart\<close> and ends at
  \<open>max (prevEnd - expansion) candEnd\<close>, where \<open>expansion\<close> is
  \<open>max (prevStart - candStart) (candEnd - prevEnd) 0\<close>; the adjusted slice always contains
  the candidate slice.
\<close>

theorem adjustSlice_overlapping:
  assumes "\<not> usePreferred"
    and "slicesOverlap prevSlice candidate"
    and "\<not> sliceContains prevSlice candidate"
  shows "adjustSlice prevSlice candidate usePreferred =
           \<lparr>slice_start = min (slice_start prevSlice + sliceExpansion prevSlice candidate)
                               (slice_start candidate),
            slice_end = max (slice_end prevSlice - sliceExpansion prevSlice candidate)
                             (slice_end candidate)\<rparr>
         \<and> sliceContains (adjustSlice prevSlice candidate usePreferred) candidate"
  using assms
  by (auto simp add: adjustSlice_def slicesOverlap_def sliceContains_def sliceExpansion_def Let_def)

theorem adjustSlice_overlapping_witness:
  "adjustSlice \<lparr>slice_start = 10, slice_end = 20\<rparr> \<lparr>slice_start = 14, slice_end = 23\<rparr> False
     = \<lparr>slice_start = 13, slice_end = 23\<rparr>"
  using adjustSlice_overlapping
    [of False "\<lparr>slice_start = 10, slice_end = 20\<rparr>" "\<lparr>slice_start = 14, slice_end = 23\<rparr>"]
  by (simp add: slicesOverlap_def sliceContains_def sliceExpansion_def)

text \<open>
  The claim as stated fails for previous \<open>[10,20)\<close> and candidate \<open>[15,22)\<close>, which overlap
  without containment: the code returns \<open>[12,22)\<close>. That is neither the previous slice
  grown by the expansion 2 on each boundary, \<open>[8,22)\<close>, nor that slice clamped to the
  candidate's span, \<open>[15,22)\<close>, and it exceeds the candidate's span at the start.
\<close>

theorem adjustSlice_not_grown_and_clamped:
  "slicesOverlap \<lparr>slice_start = 10, slice_end = 20\<rparr> \<lparr>slice_start = 15, slice_end = 22\<rparr>
   \<and> \<not> sliceContains \<lparr>slice_start = 10, slice_end = 20\<rparr> \<lparr>slice_start = 15, slice_end = 22\<rparr>
   \<and> sliceExpansion \<lparr>slice_start = 10, slice_end = 20\<rparr> \<lparr>slice_start = 15, slice_end = 22\<rparr> = 2
   \<and> adjustSlice \<lparr>slice_start = 10, slice_end = 20\<rparr> \<lparr>slice_start = 15, slice_end = 22\<rparr> False
       = \<lparr>slice_start = 12, slice_end = 22\<rparr>
   \<and> grownAndClamped \<lparr>slice_start = 10, slice_end = 20\<rparr> \<lparr>slice_start = 15, slice_end = 22\<rparr>
       = \<lparr>slice_start = 15, slice_end = 22\<rparr>
   \<and> \<not> sliceContains \<lparr>slice_start = 15, slice_end = 22\<rparr>
         (adjustSlice \<lparr>slice_start = 10, slice_end = 20\<rparr> \<lparr>slice_start = 15, slice_end = 22\<rparr> False)"
  by (simp add: slicesOverlap_def sliceContains_def adjustSlice_def grownAndClamped_def
      sliceExpansion_def MAX_ITEMS_TO_RENDER_AT_ONCE_def)

section \<open>Proximity zones: trigger causes\<close>

text \<open>
  Claim C7. The trigger cause follows the table: unset to INSIDE gives
  \<open>INITIAL_POSITION\<close>, OUTSIDE to INSIDE gives \<open>MOVEMENT\<close>, INSIDE to INSIDE gives
  \<open>LIST_UPDATE\<close> exactly when the list length changed, and every transition to OUTSIDE gives
  no trigger. A positioning update leaves the zone definitions as they are, sets every
  zone's stored proximity and list length to the current values whether or not its
  callback fired, and invokes, in zone order, the callbacks of the zones with a cause.
\<close>

theorem proximity_trigger_table:
  "calculateProximityTrigger None l INSIDE n = Some INITIAL_POSITION
   \<and> calculateProximityTrigger (Some OUTSIDE) l INSIDE n = Some MOVEMENT
   \<and> calculateProximityTrigger (Some INSIDE) l INSIDE n
       = (if l = Some n then None else Some LIST_UPDATE)
   \<and> calculateProximityTrigger p l OUTSIDE n = None
   \<and> map fst (fst (handlePositioningUpdate zones pos)) = map fst zones
   \<and> map snd (fst (handlePositioningUpdate zones pos))
       = map (\<lambda>e. \<lparr>proximity = Some (currentProximityOf pos (fst e)),
                    listLength = Some (pos_listLength pos)\<rparr>) zones
   \<and> snd (handlePositioningUpdate zones pos)
       = concat (map (\<lambda>e. case calculateProximityTrigger (proximity (snd e)) (listLength (snd e))
                                  (currentProximityOf pos (fst e)) (pos_listLength pos) of
                             None \<Rightarrow> []
                           | Some c \<Rightarrow> [(callback (fst e), c)]) zones)"
proof -
  have table: "calculateProximityTrigger None l INSIDE n = Some INITIAL_POSITION"
    "calculateProximityTrigger (Some OUTSIDE) l INSIDE n = Some MOVEMENT"
    "calculateProximityTrigger (Some INSIDE) l INSIDE n
       = (if l = Some n then None else Some LIST_UPDATE)"
    "calculateProximityTrigger p l OUTSIDE n = None"
    by (auto simp add: calculateProximityTrigger_def)
  have zone: "fst (fst (handleZone pos e)) = fst e"
    "snd (fst (handleZone pos e))
       = \<lparr>proximity = Some (currentProximityOf pos (fst e)),
          listLength = Some (pos_listLength pos)\<rparr>"
    "snd (handleZone pos e)
       = (case calculateProximityTrigger (proximity (snd e)) (listLength (snd e))
                 (currentProximityOf pos (fst e)) (pos_listLength pos) of
            None \<Rightarrow> [] | Some c \<Rightarrow> [(callback (fst e), c)])"
    for e :: "'a Zone \<times> ZoneState"
    by (simp_all add: handleZone_def currentProximityOf_def Let_def)
  show ?thesis
    by (simp add: table handlePositioningUpdate_def zone comp_def)
qed

text \<open>
  A zone that was INSIDE with list length 100 and is INSIDE again: with list length 150
  its callback is invoked with \<open>LIST_UPDATE\<close>, and the stored length becomes 150.
\<close>

theorem proximity_trigger_table_witness:
  "snd (handlePositioningUpdate
          [(\<lparr>condition = isNearTop 5, callback = OnAtStart\<rparr>,
            \<lparr>proximity = Some INSIDE, listLength = Some 100\<rparr>)]
          \<lparr>pos_viewportRect = \<lparr>rect_top = 0, rect_height = 100\<rparr>,
           pos_listRect = \<lparr>rect_top = 0, rect_height = 1000\<rparr>,
           pos_listLength = 150, pos_renderedItems = []\<rparr>)
     = [(OnAtStart, LIST_UPDATE)]
   \<and> map snd (fst (handlePositioningUpdate
          [(\<lparr>condition = isNearTop 5, callback = OnAtStart\<rparr>,
            \<lparr>proximity = Some INSIDE, listLength = Some 100\<rparr>)]
          \<lparr>pos_viewportRect = \<lparr>rect_top = 0, rect_height = 100\<rparr>,
           pos_listRect = \<lparr>rect_top = 0, rect_height = 1000\<rparr>,
           pos_listLength = 150, pos_renderedItems = []\<rparr>))
     = [\<lparr>proximity = Some INSIDE, listLength = Some 150\<rparr>]"
  using proximity_trigger_table
    [of "Some 100" 150 None
        "[(\<lparr>condition = isNearTop 5, callback = OnAtStart\<rparr>,
           \<lparr>proximity = Some INSIDE, listLength = Some 100\<rparr>)]"
        "\<lparr>pos_viewportRect = \<lparr>rect_top = 0, rect_height = 100\<rparr>,
          pos_listRect = \<lparr>rect_top = 0, rect_height = 1000\<rparr>,
          pos_listLength = 150, pos_renderedItems = []\<rparr>"]
  by (simp add: currentProximityOf_def isNearTop_def double_eval)

section \<open>Height resolution rounds both sources\<close>






text \<open>
  With another device pixel ratio the result of the double division can also lie below
  the value: at the ratio 1.1 (the double nearest to it) the product \<open>30 * 1.1\<close> rounds to
  33, and \<open>33 / 1.1\<close> rounds to \<open>30 - 2 ^ -48\<close>, so the committed height 30 resolves to
  29.999999999999996.
\<close>

lemma getHeightForItemId_below_committed_height:
  "getHeightForItemId
     ((exampleEngine []) \<lparr>heights := [(''a'', Fin 30)],
        devicePixelRatio := 2476979795053773 / 2251799813685248\<rparr>) ''a'' []
     = 30 - 1 / 2 ^ 48"
proof -
  have "roundToDevicePixelRatio 30 (2476979795053773 / 2251799813685248) = 30 - 1 / 2 ^ 48"
    by code_simp
  then show ?thesis
    by (simp add: getHeightForItemId_def exampleEngine_def newVirtualizer_def)
qed

section \<open>Anchor resolution\<close>

text \<open>
  Claim C2, as amended. Anchor resolution follows the fallback chain with respect to the
  current list: if some currently rendered item has an id that is in the current list, has
  \<open>canBeAnchor\<close> set on its list entry and has a committed height, the anchor is the first
  such item in rendered order with its current projected offset; otherwise, if the list is
  not empty, the anchor is the first item of the list with offset 0; otherwise there is no
  anchor, and the cycle makes no projection (rendered items, slice, total height are as
  before) and no notification. Whenever every rendered item is in the current list with
  the same flag, this is the chain read off the rendered items' own flags.
\<close>

theorem anchor_fallback_chain:
  "getAnchor s = anchorByCurrentList s
   \<and> (renderedInSync s \<longrightarrow> getAnchor s = anchorByRenderedFlags s)
   \<and> (list s = [] \<longrightarrow>
        getAnchor s = None
        \<and> renderedItems (update w s) = renderedItems s
        \<and> slice (update w s) = slice s
        \<and> listHeightWithHeadRoom (update w s) = listHeightWithHeadRoom s
        \<and> events (update w s) = events s
        \<and> edgeProximity (update w s) = edgeProximity s)"
  using getAnchor_by_current_list getAnchor_in_sync getAnchor_empty_list
    update_aborted_on_empty_list
  by blast

theorem anchor_fallback_chain_witness:
  "renderedInSync (mount exampleWorld (registerElement exampleWorld 0 ''y'' (exampleEngine [''x'', ''y''])))
   \<and> getAnchor (mount exampleWorld (registerElement exampleWorld 0 ''y'' (exampleEngine [''x'', ''y''])))
       = Some (newAnchor ''y'' 100)
   \<and> list ((exampleEngine [])\<lparr>viewport := True\<rparr>) = []
   \<and> getAnchor ((exampleEngine [])\<lparr>viewport := True\<rparr>) = None
   \<and> events (update exampleWorld ((exampleEngine [])\<lparr>viewport := True\<rparr>)) = []"
proof -
  let ?s = "mount exampleWorld (registerElement exampleWorld 0 ''y'' (exampleEngine [''x'', ''y'']))"
  let ?e = "(exampleEngine [])\<lparr>viewport := True\<rparr>"
  have r: "renderedItems ?s
            = [\<lparr>itemId = ''x'', offset = 0, visible = False, canBeAnchor = True, height = 100\<rparr>,
               \<lparr>itemId = ''y'', offset = 100, visible = True, canBeAnchor = True, height = 100\<rparr>]"
    by (simp add: update_fields eval_defs registerElement_eq)
  have h: "heights ?s = [(''y'', Fin 100)]"
    by (simp add: update_fields eval_defs registerElement_eq)
  have l: "list ?s = [exampleItem ''x'', exampleItem ''y'']"
    by (simp add: update_fields eval_defs registerElement_eq)
  have sync: "renderedInSync ?s"
    by (simp add: renderedInSync_def r currentListEntry_def l exampleItem_def)
  have a: "anchorByRenderedFlags ?s = Some (newAnchor ''y'' 100)"
    by (simp add: anchorByRenderedFlags_def r h)
  have el: "list ?e = []" by (simp add: exampleEngine_def newVirtualizer_def)
  have ev: "events ?e = []" by (simp add: exampleEngine_def newVirtualizer_def)
  from anchor_fallback_chain [of ?s exampleWorld] sync
  have "getAnchor ?s = anchorByRenderedFlags ?s" by blast
  with a have 1: "getAnchor ?s = Some (newAnchor ''y'' 100)" by (simp only:)
  from anchor_fallback_chain [of ?e exampleWorld] el
  have "getAnchor ?e = None \<and> events (update exampleWorld ?e) = events ?e" by blast
  with ev have 2: "getAnchor ?e = None \<and> events (update exampleWorld ?e) = []" by (simp only:)
  show ?thesis using sync 1 el 2 by blast
qed

text \<open>
  The claim as stated fails after the list is replaced. An engine over the single item
  \<open>x\<close> is mounted with a registered node for \<open>x\<close>, so \<open>x\<close> is rendered at offset 0 with a
  committed height and \<open>canBeAnchor\<close> set; then the list is replaced by the single item
  \<open>y\<close>. The rendered item \<open>x\<close> still has the flag and a committed height, but the anchor
  is \<open>y\<close> at offset 0.
\<close>

theorem anchor_skips_rendered_item_missing_from_list:
  "renderedItems (setList [exampleItem ''y'']
       (mount exampleWorld (registerElement exampleWorld 0 ''x'' (exampleEngine [''x'']))))
     = [\<lparr>itemId = ''x'', offset = 0, visible = True, canBeAnchor = True, height = 100\<rparr>]
   \<and> map_of (heights (setList [exampleItem ''y'']
       (mount exampleWorld (registerElement exampleWorld 0 ''x'' (exampleEngine [''x'']))))) ''x''
     = Some (Fin 100)
   \<and> anchorByRenderedFlags (setList [exampleItem ''y'']
       (mount exampleWorld (registerElement exampleWorld 0 ''x'' (exampleEngine [''x'']))))
     = Some (newAnchor ''x'' 0)
   \<and> getAnchor (setList [exampleItem ''y'']
       (mount exampleWorld (registerElement exampleWorld 0 ''x'' (exampleEngine [''x'']))))
     = Some (newAnchor ''y'' 0)"
proof -
  let ?m = "mount exampleWorld (registerElement exampleWorld 0 ''x'' (exampleEngine [''x'']))"
  let ?s = "setList [exampleItem ''y''] ?m"
  have r: "renderedItems ?m
            = [\<lparr>itemId = ''x'', offset = 0, visible = True, canBeAnchor = True, height = 100\<rparr>]"
    by (simp add: update_fields eval_defs registerElement_eq)
  have h: "heights ?m = [(''x'', Fin 100)]"
    by (simp add: update_fields eval_defs registerElement_eq)
  have rs: "renderedItems ?s = renderedItems ?m" "heights ?s = heights ?m"
    "list ?s = [exampleItem ''y'']"
    by (simp_all add: setList_def)
  have a: "anchorByRenderedFlags ?s = Some (newAnchor ''x'' 0)"
    by (simp add: anchorByRenderedFlags_def rs r h)
  have g: "getAnchor ?s = Some (newAnchor ''y'' 0)"
    unfolding getAnchor_def getAnchorItemCandidates_def getFinalRenderedItems_def itemMap_def rs r h
    by (simp add: first_def exampleItem_def)
  show ?thesis using r h rs a g by simp
qed

section \<open>Publishing the positioning snapshot\<close>



text \<open>
  The claim as stated fails for a cycle that stops before the projection. An engine over
  the empty list is mounted: its first cycle finds no anchor and ends after measuring.
  The rendered set is empty, so the heights-ready predicate holds for it, and yet no
  position notification was made and the proximity manager still is in its initial
  state, never fed.
\<close>

theorem aborted_cycle_publishes_nothing:
  "renderedItems (mount exampleWorld (exampleEngine [])) = []
   \<and> getIsHeightsReady (mount exampleWorld (exampleEngine []))
       (renderedItems (mount exampleWorld (exampleEngine [])))
   \<and> \<not> list_ex isPositionUpdate
         (newEvents (exampleEngine []) (mount exampleWorld (exampleEngine [])))
   \<and> events (mount exampleWorld (exampleEngine [])) = []
   \<and> edgeProximity (mount exampleWorld (exampleEngine []))
       = Some (newProximityZoneManager (defaultZones (exampleEngine [])))"
proof -
  let ?s0 = "(exampleEngine [])\<lparr>viewport := True,
               edgeProximity := Some (newProximityZoneManager (defaultZones (exampleEngine [])))\<rparr>"
  have l: "list ?s0 = []" by (simp add: exampleEngine_def newVirtualizer_def)
  have m: "mount exampleWorld (exampleEngine []) = update exampleWorld ?s0"
    by (simp add: mount_def)
  have r: "renderedItems (mount exampleWorld (exampleEngine [])) = []"
    unfolding m update_aborted_on_empty_list [OF l]
    by (simp add: exampleEngine_def newVirtualizer_def)
  have e: "events (mount exampleWorld (exampleEngine [])) = []"
    unfolding m update_aborted_on_empty_list [OF l]
    by (simp add: exampleEngine_def newVirtualizer_def)
  have p: "edgeProximity (mount exampleWorld (exampleEngine []))
             = Some (newProximityZoneManager (defaultZones (exampleEngine [])))"
    unfolding m update_aborted_on_empty_list [OF l] by simp
  have h: "getIsHeightsReady (mount exampleWorld (exampleEngine []))
             (renderedItems (mount exampleWorld (exampleEngine [])))"
    unfolding r by (simp add: getIsHeightsReady_def)
  have n: "\<not> list_ex isPositionUpdate
             (newEvents (exampleEngine []) (mount exampleWorld (exampleEngine [])))"
    by (simp add: newEvents_def e)
  show ?thesis by (intro conjI r h n e p)
qed

section \<open>The threshold flush\<close>

text \<open>
  Claim C6. Let 51 reports with distinct item ids be staged one after the other, starting
  from an empty pending buffer, while some rendered item has neither a committed height
  nor a report among them (so the every-rendered-item condition is never met). Then the
  first 50 are staged without a flush, and the 51st flushes: every report is committed
  to the height map, the pending buffer is cleared, the reason \<open>HEIGHT_CHANGE\<close> is set and a
  cycle runs at once; when that cycle gets as far as the projection, its first
  notification is \<open>onChange\<close>, whether or not the slice changed.
\<close>

theorem threshold_flush:
  assumes "pendingHeightUpdates s = []"
    and "length reports = 51"
    and "distinct (map fst reports)"
    and "r \<in> set (renderedItems s)" "map_of (heights s) (itemId r) = None"
      "itemId r \<notin> fst ` set reports"
  shows "stageAll w (butlast reports) s = s\<lparr>pendingHeightUpdates := butlast reports\<rparr>
    \<and> stageAll w reports s = update w (flushPending (s\<lparr>pendingHeightUpdates := reports\<rparr>))
    \<and> (\<forall>e \<in> set reports.
          map_of (heights (flushPending (s\<lparr>pendingHeightUpdates := reports\<rparr>))) (fst e) = Some (snd e))
    \<and> pendingHeightUpdates (flushPending (s\<lparr>pendingHeightUpdates := reports\<rparr>)) = []
    \<and> lastUpdateReason (flushPending (s\<lparr>pendingHeightUpdates := reports\<rparr>)) = Some HEIGHT_CHANGE
    \<and> pendingHeightUpdates (stageAll w reports s) = []
    \<and> (cycleRuns s \<longrightarrow> (\<exists>rest. newEvents s (stageAll w reports s) = OnChange # rest))"
proof -
  have ne: "reports \<noteq> []" using assms(2) by auto
  then have sp: "reports = butlast reports @ [last reports]" by simp
  have d: "distinct (map fst (butlast reports))"
    using assms(3) by (simp add: map_butlast distinct_butlast)
  have lb: "length (butlast reports) = 50" using assms(2) by simp
  have nr: "itemId r \<notin> fst ` set (butlast reports)"
    using assms(6) by (auto dest: in_set_butlastD)
  have 1: "stageAll w (butlast reports) s = s\<lparr>pendingHeightUpdates := butlast reports\<rparr>"
    using stageAll_stages [of s "butlast reports" r w] assms(1,4,5) d lb nr by simp
  have fresh: "fst (last reports) \<notin> fst ` set (butlast reports)"
  proof -
    have "distinct (map fst (butlast reports) @ [fst (last reports)])"
      using assms(3) sp by (metis list.simps(8,9) map_append)
    then show ?thesis by simp
  qed
  have "stageAll w reports s
          = updateItemHeight w (fst (last reports)) (snd (last reports))
              (stageAll w (butlast reports) s)"
    by (subst sp) (simp add: stageAll_def)
  also have "\<dots> = update w (flushPending
                 (s\<lparr>pendingHeightUpdates := butlast reports @ [(fst (last reports), snd (last reports))]\<rparr>))"
    unfolding 1 using fresh lb
    by (simp add: updateItemHeight_flushes_over_threshold)
  also have "butlast reports @ [(fst (last reports), snd (last reports))] = reports"
    using sp by simp
  finally have 2: "stageAll w reports s
                     = update w (flushPending (s\<lparr>pendingHeightUpdates := reports\<rparr>))" .
  let ?f = "flushPending (s\<lparr>pendingHeightUpdates := reports\<rparr>)"
  have 3: "\<forall>e \<in> set reports. map_of (heights ?f) (fst e) = Some (snd e)"
    using assms(3) by (auto intro!: flushPending_commits)
  have 4: "pendingHeightUpdates (stageAll w reports s) = []"
    unfolding 2 by (simp add: update_frame flushPending_fields)
  have 5: "\<exists>rest. newEvents s (stageAll w reports s) = OnChange # rest" if "cycleRuns s"
  proof -
    have "cycleRuns ?f" using that by (simp add: cycleRuns_def flushPending_fields)
    then have "\<exists>rest. newEvents ?f (update w ?f) = OnChange # rest"
      by (rule update_tagged_fires_onChange) (simp add: flushPending_fields)
    then show ?thesis unfolding 2 by (simp add: newEvents_def flushPending_fields)
  qed
  show ?thesis using 1 2 3 4 5 by (simp add: flushPending_fields)
qed

text \<open>
  An engine over two items, both rendered and unmeasured, with the slice \<open>[0,2)\<close>: 51
  reports for other ids flush at the 51st, \<open>onChange\<close> fires, and the slice is as before.
\<close>

theorem threshold_flush_witness:
  "length exampleReports51 = 51
   \<and> pendingHeightUpdates (stageAll exampleWorld (butlast exampleReports51)
        (mount exampleWorld (exampleEngine [''0'', ''1''])))
       = butlast exampleReports51
   \<and> pendingHeightUpdates (stageAll exampleWorld exampleReports51
        (mount exampleWorld (exampleEngine [''0'', ''1''])))
       = []
   \<and> (\<exists>rest. newEvents (mount exampleWorld (exampleEngine [''0'', ''1'']))
                 (stageAll exampleWorld exampleReports51
                    (mount exampleWorld (exampleEngine [''0'', ''1''])))
               = OnChange # rest)
   \<and> slice (stageAll exampleWorld exampleReports51
        (mount exampleWorld (exampleEngine [''0'', ''1''])))
       = slice (mount exampleWorld (exampleEngine [''0'', ''1'']))"
proof -
  let ?s = "mount exampleWorld (exampleEngine [''0'', ''1''])"
  let ?r = "\<lparr>itemId = ''0'', offset = 0, visible = False, canBeAnchor = True, height = 100\<rparr>"
  have rendered: "renderedItems ?s
      = [?r, \<lparr>itemId = ''1'', offset = 100, visible = False, canBeAnchor = True, height = 100\<rparr>]"
    by (simp add: update_fields eval_defs)
  have hs: "heights ?s = []" by (simp add: update_fields eval_defs)
  have sl: "slice ?s = \<lparr>slice_start = 0, slice_end = 2\<rparr>"
    by (simp add: update_fields eval_defs)
  have fields: "list ?s = [exampleItem ''0'', exampleItem ''1'']" "viewport ?s" "rootElement ?s"
    "cells ?s = []" "isIdle ?s" "isInitialAnchoring ?s"
    "assumedItemHeight ?s = FixedHeight 100" "devicePixelRatio ?s = 1"
    "minimumOffscreenToViewportRatio ?s = 1/2"
    by (simp_all add: update_fields eval_defs)
  have h1: "pendingHeightUpdates ?s = []" by (simp add: update_fields eval_defs)
  have h2: "length exampleReports51 = 51" by (simp add: exampleReports51_def exampleIds51_def)
  have h3: "distinct (map fst exampleReports51)"
    by (simp add: exampleReports51_def exampleIds51_def)
  have h4: "?r \<in> set (renderedItems ?s)" by (simp add: rendered)
  have h5: "map_of (heights ?s) (itemId ?r) = None" by (simp add: hs)
  have h6: "itemId ?r \<notin> fst ` set exampleReports51"
    by (simp add: exampleReports51_def exampleIds51_def)
  have run: "cycleRuns ?s" by (simp add: cycleRuns_def fields)
  note t = threshold_flush [OF h1 h2 h3 h4 h5 h6, of exampleWorld]
  from t have a: "pendingHeightUpdates (stageAll exampleWorld (butlast exampleReports51) ?s)
                    = butlast exampleReports51"
    by simp
  from t have b: "pendingHeightUpdates (stageAll exampleWorld exampleReports51 ?s) = []"
    by blast
  from t run have c: "\<exists>rest. newEvents ?s (stageAll exampleWorld exampleReports51 ?s) = OnChange # rest"
    by blast
  from t have eq: "stageAll exampleWorld exampleReports51 ?s
                     = update exampleWorld (flushPending (?s\<lparr>pendingHeightUpdates := exampleReports51\<rparr>))"
    by blast
  have d: "slice (stageAll exampleWorld exampleReports51 ?s) = slice ?s"
    unfolding eq sl
    by (simp add: update_slice getRenderCandidates_fields flushPending_def
        getAnchor_def getAnchorItemCandidates_def getFinalRenderedItems_def itemMap_def first_def
        measureHeights_def rendered hs sl fields
        translateBy_def getBufferedViewport_def getItemsWithPositions_def targetBufferRect_def
        usePreferredBuffer_def getDistanceFromTop_def getHeight_def getHeightForItemId_def
        roundToDevicePixelRatio_def candidateItems_def doesIntersectWith_def getRectInViewport_def
        getBottom_def getSliceForCandidates_def last_item_def adjustSlice_def
        MAX_ITEMS_TO_RENDER_AT_ONCE_def newAnchor_def exampleWorld_fields exampleItem_def
        exampleReports51_def exampleIds51_def upt_rec double_eval)
  show ?thesis using h2 a b c d by blast
qed

section \<open>Reported heights that are not finite\<close>

text \<open>
  Claim C3 says that a reported height that is negative or not finite is discarded. The
  handler's guard is \<^verbatim>\<open>typeof newHeightRaw !== 'number' || newHeightRaw < 0\<close>: it drops
  negative heights and \<^verbatim>\<open>-Infinity\<close> (\<open>measureElement_discards_negative\<close>), but \<^verbatim>\<open>NaN\<close> and
  \<^verbatim>\<open>Infinity\<close> pass it. Evaluated on an engine over two rendered, unmeasured items with a
  node registered for the first: the report \<^verbatim>\<open>NaN\<close>, and likewise \<^verbatim>\<open>Infinity\<close>, is staged in
  the pending buffer, which was empty.
\<close>

theorem measureElement_stages_NaN_and_Infinity:
  "pendingHeightUpdates
     (registerElement exampleWorld 0 ''a'' (mount exampleWorld (exampleEngine [''a'', ''b''])))
     = []
   \<and> pendingHeightUpdates
       (measureElement exampleWorld 0 (Some (Entry (Some NaN)))
          (registerElement exampleWorld 0 ''a'' (mount exampleWorld (exampleEngine [''a'', ''b'']))))
     = [(''a'', NaN)]
   \<and> pendingHeightUpdates
       (measureElement exampleWorld 0 (Some (Entry (Some PosInf)))
          (registerElement exampleWorld 0 ''a'' (mount exampleWorld (exampleEngine [''a'', ''b'']))))
     = [(''a'', PosInf)]"
proof -
  let ?m = "mount exampleWorld (exampleEngine [''a'', ''b''])"
  let ?s = "registerElement exampleWorld 0 ''a'' ?m"
  have m: "renderedItems ?m
      = [\<lparr>itemId = ''a'', offset = 0, visible = False, canBeAnchor = True, height = 100\<rparr>,
         \<lparr>itemId = ''b'', offset = 100, visible = False, canBeAnchor = True, height = 100\<rparr>]"
    "heights ?m = []" "pendingHeightUpdates ?m = []" "cells ?m = []"
    by (simp_all add: update_fields eval_defs)
  have s: "renderedItems ?s = renderedItems ?m" "heights ?s = []" "pendingHeightUpdates ?s = []"
    "cells ?s = [(0, ''a'')]"
    by (simp_all add: registerElement_eq m)
  have "pendingHeightUpdates (measureElement exampleWorld 0 (Some (Entry (Some raw))) ?s)
          = [(''a'', raw)]" if "raw = NaN \<or> raw = PosInf" for raw
    using that
    by (auto simp add: measureElement_def handleHeightChanged_def updateItemHeight_def s m Let_def)
  then show ?thesis using s(3) by simp
qed

theorem measureElement_stages_NaN_and_Infinity_witness:
  "pendingHeightUpdates
       (measureElement exampleWorld 0 (Some (Entry (Some NaN)))
          (registerElement exampleWorld 0 ''a'' (mount exampleWorld (exampleEngine [''a'', ''b'']))))
     \<noteq> pendingHeightUpdates
       (registerElement exampleWorld 0 ''a'' (mount exampleWorld (exampleEngine [''a'', ''b''])))"
  using measureElement_stages_NaN_and_Infinity by simp

section \<open>Running the cycle twice\<close>


















text \<open>
  The proviso on the anchor is needed as well. The half-measured engine has rendered
  \<open>a\<close> (unmeasured) and \<open>b\<close> (measured, at offset 100). With the viewport scrolled to 300
  the first run anchors on \<open>b\<close> at 100, measures \<open>a\<close> at 50 and so projects the list from
  offset 50; it renders \<open>d\<close> alone, at 250. No rendered item has a committed height then,
  so the second run falls back to the first item at offset 0 and renders \<open>d\<close> at 200, with
  the buffer selection unchanged.
\<close>

lemma scrolledWorld_fields:
  "viewportRect (scrolledWorld y) = \<lparr>rect_top = y, rect_height = 100\<rparr>"
  "rootTop (scrolledWorld y) = 0"
  "nodeHeight (scrolledWorld y) n = Some (Fin 50)"
  by (simp_all add: scrolledWorld_def)

lemmas scrolled_eval_defs =
  translateBy_def
  getAnchor_def getAnchorItemCandidates_def getFinalRenderedItems_def itemMap_def first_def
  measureHeights_def measureCell_def js_strict_eq_def
  getBufferedViewport_def getItemsWithPositions_def targetBufferRect_def usePreferredBuffer_def
  getDistanceFromTop_def getHeight_def getHeightForItemId_def roundToDevicePixelRatio_def
  candidateItems_def doesIntersectWith_def getRectInViewport_def getBottom_def
  getSliceForCandidates_def last_item_def adjustSlice_def MAX_ITEMS_TO_RENDER_AT_ONCE_def
  js_slice_def getIsHeightsReady_def newAnchor_def
  scrolledWorld_fields exampleItem_def Let_def upt_rec
  double_eval

lemma exampleHalfMeasured_fields:
  "list exampleHalfMeasured = map exampleItem [''a'', ''b'', ''c'', ''d'']"
  "cells exampleHalfMeasured = [(1, ''b''), (0, ''a'')]"
  "viewport exampleHalfMeasured" "rootElement exampleHalfMeasured"
  "isIdle exampleHalfMeasured" "isInitialAnchoring exampleHalfMeasured"
  "assumedItemHeight exampleHalfMeasured = FixedHeight 100"
  "devicePixelRatio exampleHalfMeasured = 1"
  "minimumOffscreenToViewportRatio exampleHalfMeasured = 1/2"
  "preferredOffscreenToViewportRatio exampleHalfMeasured = 5/2"
  "heights exampleHalfMeasured = [(''b'', Fin 50)]"
  "slice exampleHalfMeasured = \<lparr>slice_start = 0, slice_end = 2\<rparr>"
  "renderedItems exampleHalfMeasured
     = [\<lparr>itemId = ''a'', offset = 0, visible = False, canBeAnchor = True, height = 100\<rparr>,
        \<lparr>itemId = ''b'', offset = 100, visible = True, canBeAnchor = True, height = 50\<rparr>]"
proof -
  let ?r = "registerElement (scrolledWorld 0) 1 ''b'' (exampleEngine [''a'', ''b'', ''c'', ''d''])"
  have r: "list ?r = map exampleItem [''a'', ''b'', ''c'', ''d'']" "cells ?r = [(1, ''b'')]"
    "rootElement ?r" "isIdle ?r" "isInitialAnchoring ?r" "assumedItemHeight ?r = FixedHeight 100"
    "devicePixelRatio ?r = 1" "minimumOffscreenToViewportRatio ?r = 1/2"
    "preferredOffscreenToViewportRatio ?r = 5/2" "heights ?r = []" "renderedItems ?r = []"
    "slice ?r = \<lparr>slice_start = 0, slice_end = 0\<rparr>"
    by (simp_all add: registerElement_eq exampleEngine_def newVirtualizer_def)
  have m: "list (mount w t) = list t" "cells (mount w t) = cells t" "viewport (mount w t)"
    "rootElement (mount w t) = rootElement t" "isIdle (mount w t) = isIdle t"
    "assumedItemHeight (mount w t) = assumedItemHeight t"
    "devicePixelRatio (mount w t) = devicePixelRatio t"
    "minimumOffscreenToViewportRatio (mount w t) = minimumOffscreenToViewportRatio t"
    "preferredOffscreenToViewportRatio (mount w t) = preferredOffscreenToViewportRatio t"
    for w t
    by (simp_all add: mount_def update_frame)
  have step: "heights (mount (scrolledWorld 0) t) = [(''b'', Fin 50)]
      \<and> slice (mount (scrolledWorld 0) t) = \<lparr>slice_start = 0, slice_end = 2\<rparr>
      \<and> renderedItems (mount (scrolledWorld 0) t)
          = [\<lparr>itemId = ''a'', offset = 0, visible = False, canBeAnchor = True, height = 100\<rparr>,
             \<lparr>itemId = ''b'', offset = 100, visible = True, canBeAnchor = True, height = 50\<rparr>]
      \<and> isInitialAnchoring (mount (scrolledWorld 0) t)"
    if "list t = map exampleItem [''a'', ''b'', ''c'', ''d'']" "cells t = [(1, ''b'')]"
      "rootElement t" "isIdle t" "isInitialAnchoring t" "assumedItemHeight t = FixedHeight 100"
      "devicePixelRatio t = 1" "minimumOffscreenToViewportRatio t = 1/2"
      "preferredOffscreenToViewportRatio t = 5/2" "heights t = []" "renderedItems t = []"
      "slice t = \<lparr>slice_start = 0, slice_end = 0\<rparr>" for t
    by (simp add: that mount_def update_fields scrolled_eval_defs)
  note s = step [OF r]
  show "list exampleHalfMeasured = map exampleItem [''a'', ''b'', ''c'', ''d'']"
    "cells exampleHalfMeasured = [(1, ''b''), (0, ''a'')]"
    "viewport exampleHalfMeasured" "rootElement exampleHalfMeasured"
    "isIdle exampleHalfMeasured" 
    "assumedItemHeight exampleHalfMeasured = FixedHeight 100"
    "devicePixelRatio exampleHalfMeasured = 1"
    "minimumOffscreenToViewportRatio exampleHalfMeasured = 1/2"
    "preferredOffscreenToViewportRatio exampleHalfMeasured = 5/2"
    by (simp_all add: exampleHalfMeasured_def registerElement_eq m exampleEngine_def
        newVirtualizer_def)
  show "isInitialAnchoring exampleHalfMeasured" "heights exampleHalfMeasured = [(''b'', Fin 50)]"
    "slice exampleHalfMeasured = \<lparr>slice_start = 0, slice_end = 2\<rparr>"
    "renderedItems exampleHalfMeasured
     = [\<lparr>itemId = ''a'', offset = 0, visible = False, canBeAnchor = True, height = 100\<rparr>,
        \<lparr>itemId = ''b'', offset = 100, visible = True, canBeAnchor = True, height = 50\<rparr>]"
    using s by (simp_all add: exampleHalfMeasured_def registerElement_eq [of _ 0])
qed

lemma example_scrolled_cycle:
  assumes "list t = map exampleItem [''a'', ''b'', ''c'', ''d'']"
    "cells t = [(1, ''b''), (0, ''a'')]"
    "viewport t" "rootElement t" "isIdle t" "isInitialAnchoring t"
    "assumedItemHeight t = FixedHeight 100" "devicePixelRatio t = 1"
    "minimumOffscreenToViewportRatio t = 1/2" "preferredOffscreenToViewportRatio t = 5/2"
    "heights t = [(''b'', Fin 50)]"
    "slice t = \<lparr>slice_start = 0, slice_end = 2\<rparr>"
    "renderedItems t
       = [\<lparr>itemId = ''a'', offset = 0, visible = False, canBeAnchor = True, height = 100\<rparr>,
          \<lparr>itemId = ''b'', offset = 100, visible = True, canBeAnchor = True, height = 50\<rparr>]"
  shows "list (update (scrolledWorld 300) t) = map exampleItem [''a'', ''b'', ''c'', ''d'']"
    "cells (update (scrolledWorld 300) t) = [(1, ''b''), (0, ''a'')]"
    "viewport (update (scrolledWorld 300) t)" "rootElement (update (scrolledWorld 300) t)"
    "isIdle (update (scrolledWorld 300) t)" "isInitialAnchoring (update (scrolledWorld 300) t)"
    "assumedItemHeight (update (scrolledWorld 300) t) = FixedHeight 100"
    "devicePixelRatio (update (scrolledWorld 300) t) = 1"
    "minimumOffscreenToViewportRatio (update (scrolledWorld 300) t) = 1/2"
    "preferredOffscreenToViewportRatio (update (scrolledWorld 300) t) = 5/2"
    "heights (update (scrolledWorld 300) t) = [(''b'', Fin 50), (''a'', Fin 50)]"
    "slice (update (scrolledWorld 300) t) = \<lparr>slice_start = 3, slice_end = 4\<rparr>"
    "renderedItems (update (scrolledWorld 300) t)
       = [\<lparr>itemId = ''d'', offset = 250, visible = False, canBeAnchor = True, height = 100\<rparr>]"
    "getAnchor t = Some (newAnchor ''b'' 100)"
    "map offset (cycleProjection (scrolledWorld 300) t) = [50, 100, 150, 250]"
proof -
  show "list (update (scrolledWorld 300) t) = map exampleItem [''a'', ''b'', ''c'', ''d'']"
    "cells (update (scrolledWorld 300) t) = [(1, ''b''), (0, ''a'')]"
    "viewport (update (scrolledWorld 300) t)" "rootElement (update (scrolledWorld 300) t)"
    "isIdle (update (scrolledWorld 300) t)"
    "assumedItemHeight (update (scrolledWorld 300) t) = FixedHeight 100"
    "devicePixelRatio (update (scrolledWorld 300) t) = 1"
    "minimumOffscreenToViewportRatio (update (scrolledWorld 300) t) = 1/2"
    "preferredOffscreenToViewportRatio (update (scrolledWorld 300) t) = 5/2"
    by (simp_all add: assms update_frame)
  show "heights (update (scrolledWorld 300) t) = [(''b'', Fin 50), (''a'', Fin 50)]"
    by (simp add: assms update_heights measureCell_def scrolledWorld_fields js_strict_eq_def)
  show "slice (update (scrolledWorld 300) t) = \<lparr>slice_start = 3, slice_end = 4\<rparr>"
    "renderedItems (update (scrolledWorld 300) t)
       = [\<lparr>itemId = ''d'', offset = 250, visible = False, canBeAnchor = True, height = 100\<rparr>]"
    by (simp_all add: assms update_renderedItems update_slice getRenderCandidates_fields scrolled_eval_defs)
  then show "isInitialAnchoring (update (scrolledWorld 300) t)"
    by (simp add: assms update_isInitialAnchoring getIsHeightsReady_def measureHeights_def measureCell_def
        scrolledWorld_fields js_strict_eq_def getAnchor_def getAnchorItemCandidates_def
        getFinalRenderedItems_def itemMap_def first_def exampleItem_def)
  show "getAnchor t = Some (newAnchor ''b'' 100)"
    by (simp add: assms getAnchor_def getAnchorItemCandidates_def getFinalRenderedItems_def itemMap_def
        first_def exampleItem_def)
  show "map offset (cycleProjection (scrolledWorld 300) t) = [50, 100, 150, 250]"
    by (simp add: assms cycleProjection_def scrolled_eval_defs)
qed

lemma example_scrolled_cycle_again:
  assumes "list t = map exampleItem [''a'', ''b'', ''c'', ''d'']"
    "cells t = [(1, ''b''), (0, ''a'')]"
    "viewport t" "rootElement t" "isIdle t" "isInitialAnchoring t"
    "assumedItemHeight t = FixedHeight 100" "devicePixelRatio t = 1"
    "minimumOffscreenToViewportRatio t = 1/2" "preferredOffscreenToViewportRatio t = 5/2"
    "heights t = [(''b'', Fin 50), (''a'', Fin 50)]"
    "slice t = \<lparr>slice_start = 3, slice_end = 4\<rparr>"
    "renderedItems t
       = [\<lparr>itemId = ''d'', offset = 250, visible = False, canBeAnchor = True, height = 100\<rparr>]"
  shows "slice (update (scrolledWorld 300) t) = \<lparr>slice_start = 3, slice_end = 4\<rparr>"
    "renderedItems (update (scrolledWorld 300) t)
       = [\<lparr>itemId = ''d'', offset = 200, visible = False, canBeAnchor = True, height = 100\<rparr>]"
    "getAnchor t = Some (newAnchor ''a'' 0)"
    "usePreferredBuffer t = False"
proof -
  show "slice (update (scrolledWorld 300) t) = \<lparr>slice_start = 3, slice_end = 4\<rparr>"
    "renderedItems (update (scrolledWorld 300) t)
       = [\<lparr>itemId = ''d'', offset = 200, visible = False, canBeAnchor = True, height = 100\<rparr>]"
    by (simp_all add: assms update_renderedItems update_slice getRenderCandidates_fields scrolled_eval_defs)
  show "getAnchor t = Some (newAnchor ''a'' 0)"
    by (simp add: assms getAnchor_def getAnchorItemCandidates_def getFinalRenderedItems_def itemMap_def
        first_def exampleItem_def)
  show "usePreferredBuffer t = False" by (simp add: assms usePreferredBuffer_def)
qed

lemma second_cycle_rebases_on_fallback_anchor:
  "usePreferredBuffer (update (scrolledWorld 300) exampleHalfMeasured)
     = usePreferredBuffer exampleHalfMeasured
   \<and> getAnchor exampleHalfMeasured = Some (newAnchor ''b'' 100)
   \<and> map offset (cycleProjection (scrolledWorld 300) exampleHalfMeasured) = [50, 100, 150, 250]
   \<and> getAnchor (update (scrolledWorld 300) exampleHalfMeasured) = Some (newAnchor ''a'' 0)
   \<and> renderedItems (update (scrolledWorld 300) exampleHalfMeasured)
       = [\<lparr>itemId = ''d'', offset = 250, visible = False, canBeAnchor = True, height = 100\<rparr>]
   \<and> renderedItems (update (scrolledWorld 300) (update (scrolledWorld 300) exampleHalfMeasured))
       = [\<lparr>itemId = ''d'', offset = 200, visible = False, canBeAnchor = True, height = 100\<rparr>]"
proof -
  note a = example_scrolled_cycle [OF exampleHalfMeasured_fields]
  note b = example_scrolled_cycle_again [OF a(1-13)]
  have "usePreferredBuffer exampleHalfMeasured = False"
    by (simp add: usePreferredBuffer_def exampleHalfMeasured_fields)
  then have p: "usePreferredBuffer (update (scrolledWorld 300) exampleHalfMeasured)
                  = usePreferredBuffer exampleHalfMeasured"
    using b(4) by simp
  show ?thesis by (intro conjI p a(14) a(15) b(3) a(13) b(2))
qed

end
